theory Spec2Isabelle
  imports Main "HOL-Library.Word" "HOL-Library.AList" "HOL-Library.Sublist"
begin

section \<open>Values of Go's empty interface\<close>

text \<open>
  The plugin handles tool schemas, tool arguments and model configuration as values of
  type \<^verbatim>\<open>any\<close>. The type below lists the dynamic types the plugin's type
  switches and type assertions tell apart; every other dynamic type is \<open>VOther\<close>.
  The type variable \<open>'f\<close> stands for float64: no arithmetic on floats is modelled, the
  conversions the code calls are fields of \<open>golib\<close>. A float32 is carried by the
  float64 of the same value. Go's \<^verbatim>\<open>int\<close> is taken as 64 bits wide.

  A \<^verbatim>\<open>map[string]interface{}\<close> is an association list: \<open>map_of m k\<close> is
  the lookup \<^verbatim>\<open>m[k]\<close>, \<open>AList.update k v m\<close> the assignment
  \<^verbatim>\<open>m[k] = v\<close>. Go visits a map in no fixed order; none of the loops below
  depends on the order.
\<close>

datatype 'f gvalue =
    VNil
  | VString string
  | VBytes string
  | VNumber string
  | VBool bool
  | VInt "64 word"
  | VInt32 "32 word"
  | VInt64 "64 word"
  | VFloat32 'f
  | VFloat64 'f
  | VStrings "string list"
  | VSlice "'f gvalue list"
  | VMap "(string \<times> 'f gvalue) list"
  | VOther string

type_synonym 'f jmap = "(string \<times> 'f gvalue) list"

text \<open>
  Functions of Go's standard library and of the AWS SDK that the plugin calls and that
  are not part of the repository. \<open>None\<close> and \<open>Inl\<close> stand for a returned error.
  \<open>ParseFloat\<close> is \<^verbatim>\<open>strconv.ParseFloat(s, 64)\<close>; \<open>Number_Float64\<close> and
  \<open>Number_Int64\<close> are the accessors of \<^verbatim>\<open>smithydoc.Number\<close>;
  \<open>float64_of_int\<close>, \<open>int64_of_float\<close> and \<open>float32_of_float64\<close> are Go's
  numeric conversions; \<open>json_Unmarshal\<close> decodes into a
  \<^verbatim>\<open>map[string]interface{}\<close>, the four \<open>Unmarshal_\<close> fields decode into
  the response structs of the image and embedding adapters (the field
  \<^verbatim>\<open>images\<close>, the pairs \<^verbatim>\<open>base64\<close> and \<^verbatim>\<open>finishReason\<close> of
  \<^verbatim>\<open>artifacts\<close>, the fields \<^verbatim>\<open>embedding\<close> and \<^verbatim>\<open>embeddings\<close>).
\<close>

record 'f golib =
  ParseFloat :: "string \<Rightarrow> 'f option"
  Number_Float64 :: "string \<Rightarrow> 'f option"
  Number_Int64 :: "string \<Rightarrow> 64 word option"
  float64_of_int :: "int \<Rightarrow> 'f"
  int64_of_float :: "'f \<Rightarrow> 64 word"
  float32_of_float64 :: "'f \<Rightarrow> 'f"
  json_Unmarshal :: "string \<Rightarrow> string + 'f jmap"
  json_Marshal :: "'f gvalue \<Rightarrow> string + string"
  Sprintf_v :: "'f gvalue \<Rightarrow> string"
  base64_DecodeString :: "string \<Rightarrow> string option"
  UnmarshalSmithyDocument :: "'f gvalue \<Rightarrow> string + 'f jmap"
  Unmarshal_images :: "string \<Rightarrow> string + string list"
  Unmarshal_artifacts :: "string \<Rightarrow> string + (string \<times> string) list"
  Unmarshal_embedding :: "string \<Rightarrow> string + 'f list"
  Unmarshal_embeddings :: "string \<Rightarrow> string + 'f list list"

datatype error =
    SchemaIsNil
  | FailedToNormalizeSchema error
  | FailedToParseSchemaJSON string
  | FailedToParseSchemaJSONBytes string
  | FailedToMarshalSchema string
  | FailedToUnmarshalSchema string
  | FailedToBuildConverseInput error
  | BedrockConverseFailed string
  | BedrockConverseStreamFailed string
  | CallbackError string
  | NoTextPromptFound
  | UnsupportedImageModel string
  | UnsupportedEmbeddingModel string
  | FailedToMarshalRequest string
  | FailedToInvokeModel string
  | FailedToUnmarshalResponse string
  | NoImagesGenerated
  | NoEmbeddingsReturned
  | FailedToGenerateEmbedding error

section \<open>SchemaNormalizer\<close>

definition draft07 :: string where
  "draft07 = ''http://json-schema.org/draft-07/schema#''"

text \<open>\<^verbatim>\<open>for k, v := range schema { normalized[k] = v }\<close> into the fresh map.\<close>

definition copy_entries :: "'f jmap \<Rightarrow> 'f jmap" where
  "copy_entries schema = fold (\<lambda>(k, v) normalized. AList.update k v normalized) schema []"

definition validateAndNormalizeJSONSchema :: "'f jmap \<Rightarrow> 'f jmap" where
  "validateAndNormalizeJSONSchema schema =
     (let normalized = copy_entries schema;
          normalized = (if map_of normalized ''type'' = None
                        then AList.update ''type'' (VString ''object'') normalized
                        else normalized);
          normalized = (if map_of normalized ''type'' = Some (VString ''object'')
                        then (if map_of normalized ''properties'' = None
                              then AList.update ''properties'' (VMap []) normalized
                              else normalized)
                        else normalized);
          normalized = (if map_of normalized ''$schema'' = None
                        then AList.update ''$schema'' (VString draft07) normalized
                        else normalized)
      in normalized)"

fun normalizeSchema :: "'f golib \<Rightarrow> 'f gvalue \<Rightarrow> error + 'f jmap" where
  "normalizeSchema L (VMap s) = Inr (validateAndNormalizeJSONSchema s)"
| "normalizeSchema L (VString s) =
     (case json_Unmarshal L s of
        Inl err \<Rightarrow> Inl (FailedToParseSchemaJSON err)
      | Inr schemaMap \<Rightarrow> Inr (validateAndNormalizeJSONSchema schemaMap))"
| "normalizeSchema L (VBytes s) =
     (case json_Unmarshal L s of
        Inl err \<Rightarrow> Inl (FailedToParseSchemaJSONBytes err)
      | Inr schemaMap \<Rightarrow> Inr (validateAndNormalizeJSONSchema schemaMap))"
| "normalizeSchema L schema =
     (case json_Marshal L schema of
        Inl err \<Rightarrow> Inl (FailedToMarshalSchema err)
      | Inr jsonData \<Rightarrow>
          (case json_Unmarshal L jsonData of
             Inl err \<Rightarrow> Inl (FailedToUnmarshalSchema err)
           | Inr schemaMap \<Rightarrow> Inr (validateAndNormalizeJSONSchema schemaMap)))"

section \<open>ValueCoercer\<close>

text \<open>\<^verbatim>\<open>strconv.ParseBool\<close> of Go's standard library.\<close>

definition ParseBool :: "string \<Rightarrow> bool option" where
  "ParseBool str =
     (if str \<in> set [''1'', ''t'', ''T'', ''true'', ''TRUE'', ''True''] then Some True
      else if str \<in> set [''0'', ''f'', ''F'', ''false'', ''FALSE'', ''False''] then Some False
      else None)"

text \<open>
  \<^verbatim>\<open>convertValueWithSchema\<close> is a sequence of blocks, each of which either returns
  or falls through to the next. The first three are the definitions below: \<open>Some r\<close>
  is \<^verbatim>\<open>return r\<close>, \<open>None\<close> falls through.
\<close>

definition convertDocNumber :: "'f golib \<Rightarrow> 'f gvalue \<Rightarrow> string \<Rightarrow> 'f gvalue option" where
  "convertDocNumber L value schemaType =
     (case value of
        VNumber docNum \<Rightarrow>
          (if schemaType = ''number'' then map_option VFloat64 (Number_Float64 L docNum)
           else if schemaType = ''integer'' then map_option VInt64 (Number_Int64 L docNum)
           else None)
      | _ \<Rightarrow> None)"

definition convertString :: "'f golib \<Rightarrow> 'f gvalue \<Rightarrow> string \<Rightarrow> 'f gvalue option" where
  "convertString L value schemaType =
     (case value of
        VString strValue \<Rightarrow>
          (if schemaType = ''number'' \<or> schemaType = ''integer'' then
             (case ParseFloat L strValue of
                Some floatVal \<Rightarrow>
                  (if schemaType = ''integer'' then Some (VInt64 (int64_of_float L floatVal))
                   else Some (VFloat64 floatVal))
              | None \<Rightarrow> None)
           else if schemaType = ''boolean'' then map_option VBool (ParseBool strValue)
           else None)
      | _ \<Rightarrow> None)"

definition convertNumeric :: "'f golib \<Rightarrow> 'f gvalue \<Rightarrow> string \<Rightarrow> 'f gvalue option" where
  "convertNumeric L value schemaType =
     (if schemaType = ''number'' then
        (case value of
           VInt v \<Rightarrow> Some (VFloat64 (float64_of_int L (sint v)))
         | VInt32 v \<Rightarrow> Some (VFloat64 (float64_of_int L (sint v)))
         | VInt64 v \<Rightarrow> Some (VFloat64 (float64_of_int L (sint v)))
         | VFloat32 v \<Rightarrow> Some (VFloat64 v)
         | VFloat64 v \<Rightarrow> Some (VFloat64 v)
         | _ \<Rightarrow> None)
      else if schemaType = ''integer'' then
        (case value of
           VInt v \<Rightarrow> Some (VInt64 v)
         | VInt32 v \<Rightarrow> Some (VInt64 (scast v))
         | VInt64 v \<Rightarrow> Some (VInt64 v)
         | VFloat32 v \<Rightarrow> Some (VInt64 (int64_of_float L v))
         | VFloat64 v \<Rightarrow> Some (VInt64 (int64_of_float L v))
         | _ \<Rightarrow> None)
      else None)"

lemma size_entry_le:
  "(k, v) \<in> set m \<Longrightarrow> size v \<le> size_list (size_prod (\<lambda>x. 0) size) m"
  by (induction m) auto

lemma size_item_le: "x \<in> set xs \<Longrightarrow> size x \<le> size_list size xs"
  by (induction xs) auto

text \<open>
  The schema argument is \<open>None\<close> for a nil map. The loop
  \<^verbatim>\<open>for key, value := range inputMap { result[key] = ... }\<close> fills a fresh map
  with one entry per entry of \<open>inputMap\<close>.
\<close>

function convertMapWithSchema :: "'f golib \<Rightarrow> 'f jmap \<Rightarrow> 'f jmap option \<Rightarrow> 'f gvalue"
  and convertValueWithSchema :: "'f golib \<Rightarrow> 'f gvalue \<Rightarrow> 'f jmap option \<Rightarrow> 'f gvalue" where
  "convertMapWithSchema L inputMap None = VMap inputMap"
| "convertMapWithSchema L inputMap (Some schema) =
     (case map_of schema ''type'' of
        Some (VString schemaType) \<Rightarrow>
          (if schemaType = ''object'' then
             (case map_of schema ''properties'' of
                Some (VMap properties) \<Rightarrow>
                  VMap (map (\<lambda>(key, value).
                          (key, case map_of properties key of
                                  Some (VMap propSchemaMap) \<Rightarrow>
                                    convertValueWithSchema L value (Some propSchemaMap)
                                | Some _ \<Rightarrow> value
                                | None \<Rightarrow> value)) inputMap)
              | _ \<Rightarrow> VMap inputMap)
           else VMap inputMap)
      | _ \<Rightarrow> VMap inputMap)"
| "convertValueWithSchema L value None = value"
| "convertValueWithSchema L value (Some schema) =
     (case map_of schema ''type'' of
        Some (VString schemaType) \<Rightarrow>
          (case convertDocNumber L value schemaType of Some r \<Rightarrow> r | None \<Rightarrow>
          (case convertString L value schemaType of Some r \<Rightarrow> r | None \<Rightarrow>
          (case convertNumeric L value schemaType of Some r \<Rightarrow> r | None \<Rightarrow>
          (case (if schemaType = ''array'' then
                   (case map_of schema ''items'' of
                      Some (VMap items) \<Rightarrow>
                        (case value of
                           VSlice arrayValue \<Rightarrow>
                             Some (VSlice (map (\<lambda>item. convertValueWithSchema L item (Some items))
                                             arrayValue))
                         | _ \<Rightarrow> None)
                    | _ \<Rightarrow> None)
                 else None) of Some r \<Rightarrow> r | None \<Rightarrow>
          (if schemaType = ''object'' then
             (case value of
                VMap mapValue \<Rightarrow> convertMapWithSchema L mapValue (Some schema)
              | _ \<Rightarrow> value)
           else value)))))
      | _ \<Rightarrow> value)"
  by pat_completeness auto
termination
  apply (relation "measure (\<lambda>x. case x of
            Inl (L, m, s) \<Rightarrow> 2 * size (VMap m) - 1
          | Inr (L, v, s) \<Rightarrow> 2 * size v)")
  apply simp
  apply (auto simp: less_Suc_eq_le size_entry_le dest: size_item_le)
  done

section \<open>The generic request (Genkit's package ai)\<close>

text \<open>
  A part is a struct with a kind tag; the predicates \<^verbatim>\<open>IsText\<close>,
  \<^verbatim>\<open>IsMedia\<close>, \<^verbatim>\<open>IsToolRequest\<close> and \<^verbatim>\<open>IsToolResponse\<close> read the
  tag. A role is a string.
\<close>

datatype PartKind =
  PartText | PartMedia | PartData | PartToolRequest | PartToolResponse | PartCustom
  | PartReasoning

record 'f tool_request =
  treq_Name :: string
  treq_Input :: "'f gvalue"
  treq_Ref :: string

record 'f tool_response =
  tresp_Name :: string
  tresp_Output :: "'f gvalue"
  tresp_Ref :: string

record 'f part =
  Kind :: PartKind
  ContentType :: string
  Text :: string
  ToolRequest :: "'f tool_request option"
  ToolResponse :: "'f tool_response option"

definition IsText :: "'f part \<Rightarrow> bool" where
  "IsText p = (Kind p = PartText)"

definition IsMedia :: "'f part \<Rightarrow> bool" where
  "IsMedia p = (Kind p = PartMedia)"

definition IsToolRequest :: "'f part \<Rightarrow> bool" where
  "IsToolRequest p = (Kind p = PartToolRequest)"

definition IsToolResponse :: "'f part \<Rightarrow> bool" where
  "IsToolResponse p = (Kind p = PartToolResponse)"

definition NewTextPart :: "string \<Rightarrow> 'f part" where
  "NewTextPart text = \<lparr>Kind = PartText, ContentType = ''plain/text'', Text = text,
     ToolRequest = None, ToolResponse = None\<rparr>"

definition NewMediaPart :: "string \<Rightarrow> string \<Rightarrow> 'f part" where
  "NewMediaPart mimeType contents = \<lparr>Kind = PartMedia, ContentType = mimeType,
     Text = contents, ToolRequest = None, ToolResponse = None\<rparr>"

definition NewToolRequestPart :: "'f tool_request \<Rightarrow> 'f part" where
  "NewToolRequestPart r = \<lparr>Kind = PartToolRequest, ContentType = [], Text = [],
     ToolRequest = Some r, ToolResponse = None\<rparr>"

definition RoleSystem :: string where "RoleSystem = ''system''"
definition RoleUser :: string where "RoleUser = ''user''"
definition RoleModel :: string where "RoleModel = ''model''"
definition RoleTool :: string where "RoleTool = ''tool''"

record 'f message =
  Role :: string
  Content :: "'f part list"

record 'f tool_definition =
  Name :: string
  Description :: string
  InputSchema :: "'f jmap option"

record 'f model_request =
  Messages :: "'f message list"
  Tools :: "'f tool_definition list"
  Config :: "'f gvalue"

section \<open>The wire request (the Converse API of the AWS SDK)\<close>

datatype ImageFormat = ImageFormatPng | ImageFormatJpeg | ImageFormatGif | ImageFormatWebp

datatype ConversationRole = ConversationRoleUser | ConversationRoleAssistant

datatype ToolResultStatus = ToolResultStatusSuccess | ToolResultStatusError

text \<open>
  An image block has a format and the bytes of its source; a tool-use block has an id,
  a name and an input document (each may be nil in a response); a tool-result block
  has the id, its text contents and a status.
\<close>

datatype 'f ContentBlock =
    ContentBlockMemberText string
  | ContentBlockMemberImage ImageFormat string
  | ContentBlockMemberToolUse "string option" "string option" "'f gvalue option"
  | ContentBlockMemberToolResult string "string list" ToolResultStatus
  | ContentBlockMemberOther

record 'f wire_message =
  wire_Role :: ConversationRole
  wire_Content :: "'f ContentBlock list"

record 'f InferenceConfiguration =
  MaxTokens :: "32 word option"
  Temperature :: "'f option"
  TopP :: "'f option"
  StopSequences :: "string list"

record 'f ToolSpecification =
  spec_Name :: string
  spec_Description :: string
  spec_InputSchema :: "'f jmap option"

record 'f ConverseInput =
  ModelId :: string
  wire_Messages :: "'f wire_message list"
  System :: "string list"
  InferenceConfig :: "'f InferenceConfiguration option"
  ToolConfig :: "'f ToolSpecification list option"

section \<open>ToolSchemaConverter\<close>

definition convertJSONSchemaToBedrockSchema :: "'f golib \<Rightarrow> 'f gvalue \<Rightarrow> error + 'f jmap" where
  "convertJSONSchemaToBedrockSchema L schema =
     (if schema = VNil then Inl SchemaIsNil
      else (case normalizeSchema L schema of
              Inl err \<Rightarrow> Inl (FailedToNormalizeSchema err)
            | Inr schemaMap \<Rightarrow> Inr schemaMap))"

section \<open>ContentBlockMapper\<close>

text \<open>
  \<^verbatim>\<open>strings.Split\<close> of Go's standard library for a separator of one character,
  which is what every call of the plugin passes: the pieces between the occurrences
  of the separator, so one piece more than there are occurrences.
\<close>

fun strings_Split :: "char \<Rightarrow> string \<Rightarrow> string list" where
  "strings_Split sep [] = [[]]"
| "strings_Split sep (c # cs) =
     (if c = sep then [] # strings_Split sep cs
      else (case strings_Split sep cs of
              [] \<Rightarrow> [[c]]
            | w # ws \<Rightarrow> (c # w) # ws))"

text \<open>The switch of \<^verbatim>\<open>buildConverseInput\<close> from the MIME type to the image format.\<close>

definition imageFormat :: "string \<Rightarrow> ImageFormat" where
  "imageFormat mediaType =
     (if mediaType = ''image/png'' then ImageFormatPng
      else if mediaType = ''image/jpeg'' \<or> mediaType = ''image/jpg'' then ImageFormatJpeg
      else if mediaType = ''image/gif'' then ImageFormatGif
      else if mediaType = ''image/webp'' then ImageFormatWebp
      else ImageFormatPng)"

text \<open>
  The data-URL block of the media branch: the pair of the content to decode and the
  media type after it.
\<close>

definition parseDataURL :: "string \<Rightarrow> string \<Rightarrow> string \<times> string" where
  "parseDataURL content mediaType =
     (if prefix ''data:'' content then
        (let parts = strings_Split CHR '','' content in
         if length parts = 2 then
           (parts ! 1,
            if mediaType = [] then
              (let urlParts = strings_Split CHR '':'' (parts ! 0) in
               if length urlParts > 1 then
                 (let mimeAndEncoding = strings_Split CHR '';'' (urlParts ! 1) in
                  if length mimeAndEncoding > 0 then mimeAndEncoding ! 0 else mediaType)
               else mediaType)
            else mediaType)
         else (content, mediaType))
      else (content, mediaType))"

text \<open>The media branch: one image block.\<close>

definition convertMediaPart :: "'f golib \<Rightarrow> 'f part \<Rightarrow> 'f ContentBlock" where
  "convertMediaPart L part =
     (let (content, mediaType) = parseDataURL (Text part) (ContentType part);
          format = imageFormat mediaType;
          imageData = (case base64_DecodeString L content of
                         Some decoded \<Rightarrow> decoded
                       | None \<Rightarrow> content)
      in ContentBlockMemberImage format imageData)"

text \<open>The text of a tool result: the contents of the tool-result block.\<close>

definition toolResultContent :: "'f golib \<Rightarrow> 'f gvalue \<Rightarrow> string list" where
  "toolResultContent L output =
     (if output \<noteq> VNil then
        [case output of
           VString s \<Rightarrow> s
         | _ \<Rightarrow> (case json_Marshal L output of
                   Inr jsonBytes \<Rightarrow> jsonBytes
                 | Inl err \<Rightarrow> Sprintf_v L output)]
      else [])"

text \<open>
  The body of the loop over the parts of a user, model or tool message: the blocks one
  part appends to \<^verbatim>\<open>contentBlocks\<close>, none or one.
\<close>

definition convertPart :: "'f golib \<Rightarrow> 'f part \<Rightarrow> 'f ContentBlock list" where
  "convertPart L part =
     (if IsText part then [ContentBlockMemberText (Text part)]
      else if IsMedia part then [convertMediaPart L part]
      else if IsToolRequest part then
        (case ToolRequest part of
           Some toolReq \<Rightarrow>
             [ContentBlockMemberToolUse (Some (treq_Ref toolReq)) (Some (treq_Name toolReq))
                (Some (treq_Input toolReq))]
         | None \<Rightarrow> [])
      else if IsToolResponse part then
        (case ToolResponse part of
           Some toolResp \<Rightarrow>
             [ContentBlockMemberToolResult (tresp_Ref toolResp)
                (toolResultContent L (tresp_Output toolResp)) ToolResultStatusSuccess]
         | None \<Rightarrow> [])
      else [])"

section \<open>ConverseRequestBuilder\<close>

text \<open>
  The body of the loop over the messages: the lists \<^verbatim>\<open>messages\<close> and
  \<^verbatim>\<open>systemPrompts\<close> after one message.
\<close>

definition convertMessage ::
  "'f golib \<Rightarrow> 'f message \<Rightarrow> 'f wire_message list \<times> string list \<Rightarrow>
   'f wire_message list \<times> string list" where
  "convertMessage L msg acc =
     (case acc of (messages, systemPrompts) \<Rightarrow>
        if Role msg = RoleSystem then
          (messages, systemPrompts @ map Text (filter IsText (Content msg)))
        else if Role msg = RoleUser \<or> Role msg = RoleModel \<or> Role msg = RoleTool then
          (let contentBlocks = concat (map (convertPart L) (Content msg));
               bedrockRole = (if Role msg = RoleModel then ConversationRoleAssistant
                              else ConversationRoleUser)
           in (if length contentBlocks > 0
               then messages @ [\<lparr>wire_Role = bedrockRole, wire_Content = contentBlocks\<rparr>]
               else messages,
               systemPrompts))
        else (messages, systemPrompts))"

definition buildMessages ::
  "'f golib \<Rightarrow> 'f message list \<Rightarrow> 'f wire_message list \<times> string list" where
  "buildMessages L msgs = fold (convertMessage L) msgs ([], [])"

text \<open>The trailing-turn block: the messages that are sent.\<close>

definition dropTrailingAssistant ::
  "'f tool_definition list \<Rightarrow> 'f wire_message list \<Rightarrow> 'f wire_message list" where
  "dropTrailingAssistant tools messages =
     (if length tools > 0 \<and> length messages > 0 then
        (let lastMessage = last messages in
         if wire_Role lastMessage = ConversationRoleAssistant then butlast messages
         else messages)
      else messages)"

definition buildInferenceConfig ::
  "'f golib \<Rightarrow> 'f gvalue \<Rightarrow> 'f InferenceConfiguration option" where
  "buildInferenceConfig L config =
     (case config of
        VMap configMap \<Rightarrow>
          Some \<lparr>MaxTokens =
                  (case map_of configMap ''maxOutputTokens'' of
                     Some (VInt maxTokens) \<Rightarrow> Some (ucast maxTokens)
                   | _ \<Rightarrow> (case map_of configMap ''max_tokens'' of
                             Some (VInt maxTokens) \<Rightarrow> Some (ucast maxTokens)
                           | _ \<Rightarrow> None)),
                Temperature =
                  (case map_of configMap ''temperature'' of
                     Some (VFloat64 temp) \<Rightarrow> Some (float32_of_float64 L temp)
                   | _ \<Rightarrow> None),
                TopP =
                  (case map_of configMap ''topP'' of
                     Some (VFloat64 topP) \<Rightarrow> Some (float32_of_float64 L topP)
                   | _ \<Rightarrow> None),
                StopSequences =
                  (case map_of configMap ''stopSequences'' of
                     Some (VStrings stopSequences) \<Rightarrow> stopSequences
                   | _ \<Rightarrow> [])\<rparr>
      | _ \<Rightarrow> None)"

definition buildToolSpec :: "'f golib \<Rightarrow> 'f tool_definition \<Rightarrow> 'f ToolSpecification" where
  "buildToolSpec L tool =
     \<lparr>spec_Name = Name tool, spec_Description = Description tool,
      spec_InputSchema =
        (case InputSchema tool of
           Some inputSchema \<Rightarrow>
             (case convertJSONSchemaToBedrockSchema L (VMap inputSchema) of
                Inr schema \<Rightarrow> Some schema
              | Inl err \<Rightarrow> None)
         | None \<Rightarrow> None)\<rparr>"

text \<open>\<^verbatim>\<open>buildConverseInput\<close> returns no error on any path.\<close>

definition buildConverseInput ::
  "'f golib \<Rightarrow> string \<Rightarrow> 'f model_request \<Rightarrow> error + 'f ConverseInput" where
  "buildConverseInput L modelName input =
     (let (messages, systemPrompts) =
            (if length (Messages input) > 0
             then (case buildMessages L (Messages input) of
                     (messages, systemPrompts) \<Rightarrow>
                       (dropTrailingAssistant (Tools input) messages, systemPrompts))
             else ([], []))
      in Inr \<lparr>ModelId = modelName,
              wire_Messages = messages,
              System = systemPrompts,
              InferenceConfig = buildInferenceConfig L (Config input),
              ToolConfig = (if length (Tools input) > 0
                            then Some (map (buildToolSpec L) (Tools input))
                            else None)\<rparr>)"

section \<open>The wire response and the generic response\<close>

datatype StopReason =
    StopReasonEndTurn | StopReasonMaxTokens | StopReasonStopSequence | StopReasonToolUse
  | StopReasonContentFiltered | StopReasonGuardrailIntervened | StopReasonOther

datatype FinishReason =
    FinishReasonStop | FinishReasonLength | FinishReasonBlocked | FinishReasonInterrupted
  | FinishReasonOther | FinishReasonUnknown

datatype 'f ConverseOutputMember =
    ConverseOutputMemberMessage "'f wire_message"
  | ConverseOutputMemberUnknown

record TokenUsage =
  InputTokens :: "32 word option"
  OutputTokens :: "32 word option"
  TotalTokens :: "32 word option"

record 'f ConverseOutput =
  Output :: "'f ConverseOutputMember option"
  StopReason :: StopReason
  Usage :: "TokenUsage option"

record GenerationUsage =
  usage_InputTokens :: "64 word"
  usage_OutputTokens :: "64 word"
  usage_TotalTokens :: "64 word"

record 'f model_response =
  resp_Message :: "'f message"
  resp_FinishReason :: FinishReason
  resp_Usage :: "GenerationUsage option"

record 'f model_response_chunk =
  chunk_Index :: nat
  chunk_Content :: "'f part list"

definition convertStopReasonToGenkit :: "StopReason \<Rightarrow> FinishReason" where
  "convertStopReasonToGenkit stopReason =
     (case stopReason of
        StopReasonEndTurn \<Rightarrow> FinishReasonStop
      | StopReasonMaxTokens \<Rightarrow> FinishReasonLength
      | StopReasonStopSequence \<Rightarrow> FinishReasonStop
      | StopReasonToolUse \<Rightarrow> FinishReasonStop
      | StopReasonContentFiltered \<Rightarrow> FinishReasonBlocked
      | _ \<Rightarrow> FinishReasonOther)"

text \<open>\<^verbatim>\<open>aws.ToString\<close> and \<^verbatim>\<open>aws.ToInt32\<close>: the value behind a pointer, the zero value for nil.\<close>

definition aws_ToString :: "string option \<Rightarrow> string" where
  "aws_ToString p = (case p of Some v \<Rightarrow> v | None \<Rightarrow> [])"

definition aws_ToInt32 :: "32 word option \<Rightarrow> 32 word" where
  "aws_ToInt32 p = (case p of Some v \<Rightarrow> v | None \<Rightarrow> 0)"

section \<open>The response converter\<close>

definition convertToolInputTypes ::
  "'f golib \<Rightarrow> 'f jmap \<Rightarrow> string \<Rightarrow> 'f tool_definition list \<Rightarrow> 'f gvalue" where
  "convertToolInputTypes L inputMap toolName tools =
     (case find (\<lambda>tool. Name tool = toolName) tools of
        None \<Rightarrow> VMap inputMap
      | Some targetTool \<Rightarrow>
          (case InputSchema targetTool of
             None \<Rightarrow> VMap inputMap
           | Some schema \<Rightarrow> convertMapWithSchema L inputMap (Some schema)))"

text \<open>
  The body of the loop of \<^verbatim>\<open>convertResponse\<close> over the content blocks: the parts
  one block appends, none or one.
\<close>

definition convertContentBlock ::
  "'f golib \<Rightarrow> 'f tool_definition list \<Rightarrow> 'f ContentBlock \<Rightarrow> 'f part list" where
  "convertContentBlock L tools contentBlock =
     (case contentBlock of
        ContentBlockMemberText v \<Rightarrow> [NewTextPart v]
      | ContentBlockMemberToolUse toolUseId name inputDoc \<Rightarrow>
          (let toolInput =
                 (case inputDoc of
                    Some doc \<Rightarrow>
                      (case UnmarshalSmithyDocument L doc of
                         Inr inputMap \<Rightarrow>
                           convertToolInputTypes L inputMap (aws_ToString name) tools
                       | Inl err \<Rightarrow>
                           VMap [(''_unmarshal_error'', VString err),
                                 (''_tool_use_id'', VString (aws_ToString toolUseId))])
                  | None \<Rightarrow> VMap []);
               toolRequest = \<lparr>treq_Name = aws_ToString name, treq_Input = toolInput,
                               treq_Ref = aws_ToString toolUseId\<rparr>
           in [NewToolRequestPart toolRequest])
      | _ \<Rightarrow> [])"

definition convertResponse ::
  "'f golib \<Rightarrow> 'f ConverseOutput \<Rightarrow> 'f model_request \<Rightarrow> 'f model_response" where
  "convertResponse L response originalInput =
     (let content =
            (case Output response of
               Some (ConverseOutputMemberMessage message) \<Rightarrow>
                 concat (map (convertContentBlock L (Tools originalInput))
                           (wire_Content message))
             | _ \<Rightarrow> []);
          finishReason = convertStopReasonToGenkit (StopReason response);
          usage =
            (case Usage response of
               Some u \<Rightarrow>
                 Some \<lparr>usage_InputTokens = scast (aws_ToInt32 (InputTokens u)),
                       usage_OutputTokens = scast (aws_ToInt32 (OutputTokens u)),
                       usage_TotalTokens = scast (aws_ToInt32 (TotalTokens u))\<rparr>
             | None \<Rightarrow> None);
          content = (if length content = 0 then content @ [NewTextPart []] else content)
      in \<lparr>resp_Message = \<lparr>Role = RoleModel, Content = content\<rparr>,
          resp_FinishReason = finishReason, resp_Usage = usage\<rparr>)"

text \<open>
  The content blocks of the output message of a response, none if the output is not a
  message; and the blocks \<^verbatim>\<open>convertResponse\<close> has a case for.
\<close>

definition outputBlocks :: "'f ConverseOutput \<Rightarrow> 'f ContentBlock list" where
  "outputBlocks response =
     (case Output response of
        Some (ConverseOutputMemberMessage message) \<Rightarrow> wire_Content message
      | _ \<Rightarrow> [])"

fun isTextOrToolUse :: "'f ContentBlock \<Rightarrow> bool" where
  "isTextOrToolUse (ContentBlockMemberText v) = True"
| "isTextOrToolUse (ContentBlockMemberToolUse toolUseId name inputDoc) = True"
| "isTextOrToolUse block = False"

section \<open>StreamAggregator\<close>

text \<open>
  The events of a stream are a list; the end of the list is the exhaustion of the
  stream. The caller's callback is a function of its own state and the chunk: it returns
  an error or none, and its next state. The loop keeps a log of the chunks it passed to
  the callback.
\<close>

datatype ContentBlockDelta =
    ContentBlockDeltaMemberText string
  | ContentBlockDeltaMemberOther

datatype ConverseStreamOutput =
    ConverseStreamOutputMemberContentBlockDelta "ContentBlockDelta option"
  | ConverseStreamOutputMemberMessageStop StopReason
  | ConverseStreamOutputMemberOther

type_synonym ('f, 's) callback = "'s \<Rightarrow> 'f model_response_chunk \<Rightarrow> string option \<times> 's"

record ('f, 's) stream_state =
  fullText :: string
  finalResponse :: "'f model_response option"
  cb_state :: 's
  cb_log :: "'f model_response_chunk list"

definition textResponse :: "string \<Rightarrow> FinishReason \<Rightarrow> 'f model_response" where
  "textResponse text reason =
     \<lparr>resp_Message = \<lparr>Role = RoleModel, Content = [NewTextPart text]\<rparr>,
      resp_FinishReason = reason, resp_Usage = None\<rparr>"

text \<open>The chunk the loop passes to the callback for one text delta.\<close>

definition textChunk :: "string \<Rightarrow> 'f model_response_chunk" where
  "textChunk text = \<lparr>chunk_Index = 0, chunk_Content = [NewTextPart text]\<rparr>"

text \<open>
  The loop over the events. The first component is the error of an early return, if
  there is one.
\<close>

fun processEvents ::
  "('f, 's) callback \<Rightarrow> ConverseStreamOutput list \<Rightarrow> ('f, 's) stream_state \<Rightarrow>
   error option \<times> ('f, 's) stream_state" where
  "processEvents cb [] st = (None, st)"
| "processEvents cb (ConverseStreamOutputMemberContentBlockDelta
                       (Some (ContentBlockDeltaMemberText text)) # events) st =
     (let st = st\<lparr>fullText := fullText st @ text\<rparr>;
          chunk = textChunk text
      in (case cb (cb_state st) chunk of
            (Some err, s') \<Rightarrow>
              (Some (CallbackError err), st\<lparr>cb_state := s', cb_log := cb_log st @ [chunk]\<rparr>)
          | (None, s') \<Rightarrow>
              processEvents cb events (st\<lparr>cb_state := s', cb_log := cb_log st @ [chunk]\<rparr>)))"
| "processEvents cb (ConverseStreamOutputMemberMessageStop stopReason # events) st =
     processEvents cb events
       (st\<lparr>finalResponse :=
              Some (textResponse (fullText st) (convertStopReasonToGenkit stopReason))\<rparr>)"
| "processEvents cb (event # events) st = processEvents cb events st"

text \<open>The texts of the text-delta events of a stream, in the order of the events.\<close>

fun textDeltas :: "ConverseStreamOutput list \<Rightarrow> string list" where
  "textDeltas [] = []"
| "textDeltas (ConverseStreamOutputMemberContentBlockDelta
                 (Some (ContentBlockDeltaMemberText text)) # events) = text # textDeltas events"
| "textDeltas (event # events) = textDeltas events"

text \<open>
  The SDK client: its three calls return an error or a result. The result of
  \<^verbatim>\<open>ConverseStream\<close> is the stream, here its events.
\<close>

record 'f bedrock_client =
  Converse :: "'f ConverseInput \<Rightarrow> string + 'f ConverseOutput"
  ConverseStream :: "'f ConverseInput \<Rightarrow> string + ConverseStreamOutput list"
  InvokeModel :: "string \<Rightarrow> string \<Rightarrow> string + string"

text \<open>
  What a streaming call leaves behind: its result, whether the stream was closed, the
  chunks passed to the callback, and the callback's last state. The deferred
  \<^verbatim>\<open>Close\<close> runs on every return after the stream was opened.
\<close>

record ('f, 's) stream_run =
  run_result :: "error + 'f model_response"
  run_closed :: bool
  run_calls :: "'f model_response_chunk list"
  run_cb_state :: 's

definition generateTextStream ::
  "'f bedrock_client \<Rightarrow> 'f ConverseInput \<Rightarrow> 'f model_request \<Rightarrow> ('f, 's) callback \<Rightarrow> 's \<Rightarrow>
   ('f, 's) stream_run" where
  "generateTextStream client input originalInput cb s0 =
     (case ConverseStream client input of
        Inl err \<Rightarrow>
          \<lparr>run_result = Inl (BedrockConverseStreamFailed err), run_closed = False,
           run_calls = [], run_cb_state = s0\<rparr>
      | Inr events \<Rightarrow>
          (case processEvents cb events
                  \<lparr>fullText = [], finalResponse = None, cb_state = s0, cb_log = []\<rparr> of
             (Some err, st) \<Rightarrow>
               \<lparr>run_result = Inl err, run_closed = True,
                run_calls = cb_log st, run_cb_state = cb_state st\<rparr>
           | (None, st) \<Rightarrow>
               \<lparr>run_result =
                  Inr (case finalResponse st of
                         Some r \<Rightarrow> r
                       | None \<Rightarrow> textResponse (fullText st) FinishReasonStop),
                run_closed = True,
                run_calls = cb_log st, run_cb_state = cb_state st\<rparr>))"

definition generateTextSync ::
  "'f golib \<Rightarrow> 'f bedrock_client \<Rightarrow> 'f ConverseInput \<Rightarrow> 'f model_request \<Rightarrow>
   error + 'f model_response" where
  "generateTextSync L client input originalInput =
     (case Converse client input of
        Inl err \<Rightarrow> Inl (BedrockConverseFailed err)
      | Inr response \<Rightarrow> Inr (convertResponse L response originalInput))"

section \<open>Image adapters\<close>

text \<open>\<^verbatim>\<open>strings.Contains\<close> of Go's standard library.\<close>

fun strings_Contains :: "string \<Rightarrow> string \<Rightarrow> bool" where
  "strings_Contains [] substr = (substr = [])"
| "strings_Contains (c # cs) substr = (prefix substr (c # cs) \<or> strings_Contains cs substr)"

text \<open>
  \<^verbatim>\<open>requestBody["imageGenerationConfig"].(map[string]interface{})[k] = v\<close>. The
  entry is a map in every request body the adapters build.
\<close>

definition setImageGenerationConfig :: "string \<Rightarrow> 'f gvalue \<Rightarrow> 'f jmap \<Rightarrow> 'f jmap" where
  "setImageGenerationConfig k v requestBody =
     (case map_of requestBody ''imageGenerationConfig'' of
        Some (VMap imgCfg) \<Rightarrow>
          AList.update ''imageGenerationConfig'' (VMap (AList.update k v imgCfg)) requestBody
      | _ \<Rightarrow> requestBody)"

text \<open>The block that applies the caller's configuration, of the Titan and Nova Canvas adapters.\<close>

definition applyImageGenerationConfig :: "'f gvalue \<Rightarrow> 'f jmap \<Rightarrow> 'f jmap" where
  "applyImageGenerationConfig config requestBody =
     (case config of
        VMap configMap \<Rightarrow>
          (case map_of configMap ''imageGenerationConfig'' of
             Some (VMap imgCfg) \<Rightarrow>
               fold (\<lambda>(k, v) body. setImageGenerationConfig k v body) imgCfg requestBody
           | _ \<Rightarrow> requestBody)
      | _ \<Rightarrow> requestBody)"

text \<open>Marshal the request, call \<^verbatim>\<open>InvokeModel\<close>: the body of the response.\<close>

definition invokeJSON ::
  "'f golib \<Rightarrow> 'f bedrock_client \<Rightarrow> string \<Rightarrow> 'f jmap \<Rightarrow> error + string" where
  "invokeJSON L client modelName requestBody =
     (case json_Marshal L (VMap requestBody) of
        Inl err \<Rightarrow> Inl (FailedToMarshalRequest err)
      | Inr body \<Rightarrow>
          (case InvokeModel client modelName body of
             Inl err \<Rightarrow> Inl (FailedToInvokeModel err)
           | Inr responseBody \<Rightarrow> Inr responseBody))"

definition imageResponse :: "string \<Rightarrow> 'f model_response" where
  "imageResponse base64 =
     \<lparr>resp_Message = \<lparr>Role = RoleModel,
                        Content = [NewMediaPart ''image/png'' (''data:image/png;base64,'' @ base64)]\<rparr>,
      resp_FinishReason = FinishReasonStop, resp_Usage = None\<rparr>"

definition generateTitanImage ::
  "'f golib \<Rightarrow> 'f bedrock_client \<Rightarrow> string \<Rightarrow> string \<Rightarrow> 'f gvalue \<Rightarrow> error + 'f model_response" where
  "generateTitanImage L client modelName prompt config =
     (let requestBody =
            [(''taskType'', VString ''TEXT_IMAGE''),
             (''textToImageParams'', VMap [(''text'', VString prompt)]),
             (''imageGenerationConfig'',
                VMap [(''numberOfImages'', VInt 1), (''height'', VInt 1024),
                      (''width'', VInt 1024), (''cfgScale'', VFloat64 (float64_of_int L 8)),
                      (''seed'', VInt 0)])];
          requestBody = applyImageGenerationConfig config requestBody
      in case invokeJSON L client modelName requestBody of
           Inl err \<Rightarrow> Inl err
         | Inr responseBody \<Rightarrow>
             (case Unmarshal_images L responseBody of
                Inl err \<Rightarrow> Inl (FailedToUnmarshalResponse err)
              | Inr images \<Rightarrow>
                  if length images = 0 then Inl NoImagesGenerated
                  else Inr (imageResponse (images ! 0))))"

definition generateStableDiffusionImage ::
  "'f golib \<Rightarrow> 'f bedrock_client \<Rightarrow> string \<Rightarrow> string \<Rightarrow> 'f gvalue \<Rightarrow> error + 'f model_response" where
  "generateStableDiffusionImage L client modelName prompt config =
     (let requestBody =
            [(''text_prompts'',
                VSlice [VMap [(''text'', VString prompt),
                              (''weight'', VFloat64 (float64_of_int L 1))]]),
             (''cfg_scale'', VInt 7),
             (''clip_guidance_preset'', VString ''FAST_BLUE''),
             (''height'', VInt 512),
             (''width'', VInt 512),
             (''samples'', VInt 1),
             (''steps'', VInt 30)];
          requestBody =
            (case config of
               VMap configMap \<Rightarrow> fold (\<lambda>(k, v) body. AList.update k v body) configMap requestBody
             | _ \<Rightarrow> requestBody)
      in case invokeJSON L client modelName requestBody of
           Inl err \<Rightarrow> Inl err
         | Inr responseBody \<Rightarrow>
             (case Unmarshal_artifacts L responseBody of
                Inl err \<Rightarrow> Inl (FailedToUnmarshalResponse err)
              | Inr artifacts \<Rightarrow>
                  if length artifacts = 0 then Inl NoImagesGenerated
                  else Inr (imageResponse (fst (artifacts ! 0)))))"

definition generateNovaCanvasImage ::
  "'f golib \<Rightarrow> 'f bedrock_client \<Rightarrow> string \<Rightarrow> string \<Rightarrow> 'f gvalue \<Rightarrow> error + 'f model_response" where
  "generateNovaCanvasImage L client modelName prompt config =
     (let requestBody =
            [(''taskType'', VString ''TEXT_IMAGE''),
             (''textToImageParams'', VMap [(''text'', VString prompt)]),
             (''imageGenerationConfig'',
                VMap [(''numberOfImages'', VInt 1), (''quality'', VString ''standard''),
                      (''height'', VInt 1024), (''width'', VInt 1024),
                      (''cfgScale'', VFloat64 (float64_of_int L 8)), (''seed'', VInt 0)])];
          requestBody = applyImageGenerationConfig config requestBody
      in case invokeJSON L client modelName requestBody of
           Inl err \<Rightarrow> Inl err
         | Inr responseBody \<Rightarrow>
             (case Unmarshal_images L responseBody of
                Inl err \<Rightarrow> Inl (FailedToUnmarshalResponse err)
              | Inr images \<Rightarrow>
                  if length images = 0 then Inl NoImagesGenerated
                  else Inr (imageResponse (images ! 0))))"

definition generateImage ::
  "'f golib \<Rightarrow> 'f bedrock_client \<Rightarrow> string \<Rightarrow> 'f model_request \<Rightarrow> error + 'f model_response" where
  "generateImage L client modelName input =
     (let prompt =
            (case Messages input of
               m # ms \<Rightarrow>
                 (case Content m of
                    p # ps \<Rightarrow> (if IsText p then Text p else [])
                  | [] \<Rightarrow> [])
             | [] \<Rightarrow> [])
      in if prompt = [] then Inl NoTextPromptFound
         else if strings_Contains modelName ''titan-image''
           then generateTitanImage L client modelName prompt (Config input)
         else if strings_Contains modelName ''stable-diffusion''
               \<or> strings_Contains modelName ''sd3-''
               \<or> strings_Contains modelName ''stable-image''
           then generateStableDiffusionImage L client modelName prompt (Config input)
         else if strings_Contains modelName ''nova-canvas''
           then generateNovaCanvasImage L client modelName prompt (Config input)
         else Inl (UnsupportedImageModel modelName))"

section \<open>Embedding adapters\<close>

definition getTitanEmbedding ::
  "'f golib \<Rightarrow> 'f bedrock_client \<Rightarrow> string \<Rightarrow> string \<Rightarrow> error + 'f list" where
  "getTitanEmbedding L client modelName text =
     (let requestBody = [(''inputText'', VString text)]
      in case invokeJSON L client modelName requestBody of
           Inl err \<Rightarrow> Inl err
         | Inr responseBody \<Rightarrow>
             (case Unmarshal_embedding L responseBody of
                Inl err \<Rightarrow> Inl (FailedToUnmarshalResponse err)
              | Inr embedding \<Rightarrow> Inr embedding))"

definition getCohereEmbedding ::
  "'f golib \<Rightarrow> 'f bedrock_client \<Rightarrow> string \<Rightarrow> string \<Rightarrow> error + 'f list" where
  "getCohereEmbedding L client modelName text =
     (let requestBody = [(''texts'', VStrings [text]),
                         (''input_type'', VString ''search_document'')]
      in case invokeJSON L client modelName requestBody of
           Inl err \<Rightarrow> Inl err
         | Inr responseBody \<Rightarrow>
             (case Unmarshal_embeddings L responseBody of
                Inl err \<Rightarrow> Inl (FailedToUnmarshalResponse err)
              | Inr embeddings \<Rightarrow>
                  if length embeddings = 0 then Inl NoEmbeddingsReturned
                  else Inr (embeddings ! 0)))"

text \<open>
  The loop of \<^verbatim>\<open>embed\<close> over the documents, each the list of its parts, with the
  embeddings collected so far.
\<close>

fun embedDocuments ::
  "'f golib \<Rightarrow> 'f bedrock_client \<Rightarrow> string \<Rightarrow> 'f part list list \<Rightarrow> 'f list list \<Rightarrow>
   error + 'f list list" where
  "embedDocuments L client modelName [] embeddings = Inr embeddings"
| "embedDocuments L client modelName (doc # docs) embeddings =
     (let inputText = concat (map Text (filter IsText doc))
      in if inputText = [] then embedDocuments L client modelName docs embeddings
         else if strings_Contains modelName ''titan'' then
           (case getTitanEmbedding L client modelName inputText of
              Inl err \<Rightarrow> Inl (FailedToGenerateEmbedding err)
            | Inr embedding \<Rightarrow>
                embedDocuments L client modelName docs (embeddings @ [embedding]))
         else if strings_Contains modelName ''cohere'' then
           (case getCohereEmbedding L client modelName inputText of
              Inl err \<Rightarrow> Inl (FailedToGenerateEmbedding err)
            | Inr embedding \<Rightarrow>
                embedDocuments L client modelName docs (embeddings @ [embedding]))
         else Inl (UnsupportedEmbeddingModel modelName))"

definition embed ::
  "'f golib \<Rightarrow> 'f bedrock_client \<Rightarrow> string \<Rightarrow> 'f part list list \<Rightarrow> error + 'f list list" where
  "embed L client modelName docs = embedDocuments L client modelName docs []"

section \<open>The entry point of text generation\<close>

text \<open>
  \<^verbatim>\<open>generateText\<close> with a callback: the streaming path. Without one
  (\<^verbatim>\<open>cb == nil\<close>) it is \<open>generateTextNoCallback\<close>.
\<close>

definition generateText ::
  "'f golib \<Rightarrow> 'f bedrock_client \<Rightarrow> string \<Rightarrow> 'f model_request \<Rightarrow> ('f, 's) callback \<Rightarrow> 's \<Rightarrow>
   ('f, 's) stream_run" where
  "generateText L client modelName input cb s0 =
     (case buildConverseInput L modelName input of
        Inl err \<Rightarrow>
          \<lparr>run_result = Inl (FailedToBuildConverseInput err), run_closed = False,
           run_calls = [], run_cb_state = s0\<rparr>
      | Inr converseInput \<Rightarrow> generateTextStream client converseInput input cb s0)"

definition generateTextNoCallback ::
  "'f golib \<Rightarrow> 'f bedrock_client \<Rightarrow> string \<Rightarrow> 'f model_request \<Rightarrow> error + 'f model_response" where
  "generateTextNoCallback L client modelName input =
     (case buildConverseInput L modelName input of
        Inl err \<Rightarrow> Inl (FailedToBuildConverseInput err)
      | Inr converseInput \<Rightarrow> generateTextSync L client converseInput input)"

section \<open>The normalizer on a store of maps\<close>

text \<open>
  A Go map is a reference. To say that \<^verbatim>\<open>validateAndNormalizeJSONSchema\<close> leaves
  its argument alone, the same statements are written once more over a store: a list
  of maps, a map's address its index. \<^verbatim>\<open>make\<close> appends an empty map, an
  assignment rewrites the map at one address.
\<close>

type_synonym 'f store = "'f jmap list"

definition make_map :: "'f store \<Rightarrow> nat \<times> 'f store" where
  "make_map st = (length st, st @ [[]])"

definition map_assign :: "nat \<Rightarrow> string \<Rightarrow> 'f gvalue \<Rightarrow> 'f store \<Rightarrow> 'f store" where
  "map_assign a k v st = st[a := AList.update k v (st ! a)]"

definition validateAndNormalizeJSONSchema_store :: "nat \<Rightarrow> 'f store \<Rightarrow> nat \<times> 'f store" where
  "validateAndNormalizeJSONSchema_store schema st =
     (let (normalized, st) = make_map st;
          st = fold (\<lambda>(k, v) st. map_assign normalized k v st) (st ! schema) st;
          st = (if map_of (st ! normalized) ''type'' = None
                then map_assign normalized ''type'' (VString ''object'') st
                else st);
          st = (if map_of (st ! normalized) ''type'' = Some (VString ''object'')
                then (if map_of (st ! normalized) ''properties'' = None
                      then map_assign normalized ''properties'' (VMap []) st
                      else st)
                else st);
          st = (if map_of (st ! normalized) ''$schema'' = None
                then map_assign normalized ''$schema'' (VString draft07) st
                else st)
      in (normalized, st))"

text \<open>
  The mapping \<^verbatim>\<open>normalizeSchema\<close> decodes its argument to, before it hands it to
  \<^verbatim>\<open>validateAndNormalizeJSONSchema\<close>: the four cases of its type switch.
\<close>

fun decodeSchema :: "'f golib \<Rightarrow> 'f gvalue \<Rightarrow> error + 'f jmap" where
  "decodeSchema L (VMap s) = Inr s"
| "decodeSchema L (VString s) =
     (case json_Unmarshal L s of
        Inl err \<Rightarrow> Inl (FailedToParseSchemaJSON err)
      | Inr schemaMap \<Rightarrow> Inr schemaMap)"
| "decodeSchema L (VBytes s) =
     (case json_Unmarshal L s of
        Inl err \<Rightarrow> Inl (FailedToParseSchemaJSONBytes err)
      | Inr schemaMap \<Rightarrow> Inr schemaMap)"
| "decodeSchema L schema =
     (case json_Marshal L schema of
        Inl err \<Rightarrow> Inl (FailedToMarshalSchema err)
      | Inr jsonData \<Rightarrow>
          (case json_Unmarshal L jsonData of
             Inl err \<Rightarrow> Inl (FailedToUnmarshalSchema err)
           | Inr schemaMap \<Rightarrow> Inr schemaMap))"

section \<open>The data URL in the words of the amended claim\<close>

text \<open>
  These three definitions are not taken from the code: they say, in the words of the
  amended claim on media parts, how a payload is read. A payload counts as a data URL if it starts with
  \<^verbatim>\<open>data:\<close> and holds exactly one comma. Its MIME type is the text after
  \<^verbatim>\<open>data:\<close> up to the first colon, semicolon or comma, and its data are what
  follows the comma. Any other payload has no MIME type and is itself the data.
\<close>

definition spec_isDataURL :: "string \<Rightarrow> bool" where
  "spec_isDataURL content = (prefix ''data:'' content \<and> count_list content CHR '','' = 1)"

definition spec_dataURLMime :: "string \<Rightarrow> string" where
  "spec_dataURLMime content =
     (if spec_isDataURL content
      then takeWhile (\<lambda>c. c \<noteq> CHR '':'' \<and> c \<noteq> CHR '';'' \<and> c \<noteq> CHR '','') (drop 5 content)
      else [])"

definition spec_dataURLPayload :: "string \<Rightarrow> string" where
  "spec_dataURLPayload content =
     (if spec_isDataURL content then tl (dropWhile (\<lambda>c. c \<noteq> CHR '','') content) else content)"

section \<open>An instance of the library and of the client\<close>

text \<open>
  The examples below run the plugin on small stand-ins for the library functions and
  the client: floats are integers, \<open>ParseFloat\<close> reads unsigned decimal integers, the
  JSON decoder knows the empty object, the base64 decoder one word.
\<close>

fun digitsValue :: "string \<Rightarrow> int \<Rightarrow> int option" where
  "digitsValue [] acc = Some acc"
| "digitsValue (c # cs) acc =
     (case map_of (zip ''0123456789'' [0, 1, 2, 3, 4, 5, 6, 7, 8, 9]) c of
        Some d \<Rightarrow> digitsValue cs (10 * acc + d)
      | None \<Rightarrow> None)"

definition decimalLiteral :: "string \<Rightarrow> int option" where
  "decimalLiteral s = (if s = [] then None else digitsValue s 0)"

definition demo_lib :: "int golib" where
  "demo_lib =
     \<lparr>ParseFloat = decimalLiteral,
      Number_Float64 = decimalLiteral,
      Number_Int64 = (\<lambda>s. map_option word_of_int (decimalLiteral s)),
      float64_of_int = (\<lambda>i. i),
      int64_of_float = word_of_int,
      float32_of_float64 = (\<lambda>f. f),
      json_Unmarshal = (\<lambda>s. if s = ''{}'' then Inr [] else Inl ''invalid character''),
      json_Marshal = (\<lambda>v. Inr ''{}''),
      Sprintf_v = (\<lambda>v. ''value''),
      base64_DecodeString = (\<lambda>s. if s = ''aGk='' then Some ''hi'' else None),
      UnmarshalSmithyDocument =
        (\<lambda>v. case v of VMap m \<Rightarrow> Inr m | _ \<Rightarrow> Inl ''not an object''),
      Unmarshal_images = (\<lambda>s. Inr []),
      Unmarshal_artifacts = (\<lambda>s. Inr []),
      Unmarshal_embedding = (\<lambda>s. Inr []),
      Unmarshal_embeddings = (\<lambda>s. Inr [])\<rparr>"

definition helloEvents :: "ConverseStreamOutput list" where
  "helloEvents =
     [ConverseStreamOutputMemberContentBlockDelta (Some (ContentBlockDeltaMemberText ''Hel'')),
      ConverseStreamOutputMemberContentBlockDelta (Some (ContentBlockDeltaMemberText ''lo '')),
      ConverseStreamOutputMemberContentBlockDelta (Some (ContentBlockDeltaMemberText ''world''))]"

definition demo_client :: "int bedrock_client" where
  "demo_client =
     \<lparr>Converse = (\<lambda>input. Inl ''not connected''),
      ConverseStream = (\<lambda>input. Inr helloEvents),
      InvokeModel = (\<lambda>modelName body. Inr ''{}'')\<rparr>"

text \<open>Two callbacks: one counts its calls, one fails on its second call.\<close>

definition countingCallback :: "(int, nat) callback" where
  "countingCallback n chunk = (None, Suc n)"

definition failSecondCallback :: "(int, nat) callback" where
  "failSecondCallback n chunk = (if n = 1 then Some ''stop'' else None, Suc n)"

definition demo_request :: "int model_request" where
  "demo_request =
     \<lparr>Messages = [\<lparr>Role = RoleUser, Content = [NewTextPart ''What is the weather?'']\<rparr>,
                  \<lparr>Role = RoleModel, Content = [NewTextPart ''Let me check.'']\<rparr>],
      Tools = [\<lparr>Name = ''weather'', Description = ''Get the weather'', InputSchema = None\<rparr>],
      Config = VNil\<rparr>"

definition demo_input :: "int ConverseInput" where
  "demo_input =
     \<lparr>ModelId = ''anthropic.claude-3-haiku-20240307-v1:0'',
      wire_Messages = [\<lparr>wire_Role = ConversationRoleUser,
                        wire_Content = [ContentBlockMemberText ''Say hello.'']\<rparr>],
      System = [], InferenceConfig = None, ToolConfig = None\<rparr>"

section \<open>Properties of the SchemaNormalizer\<close>

lemma update_fresh: "k \<notin> fst ` set al \<Longrightarrow> AList.update k v al = al @ [(k, v)]"
  by (induction al) auto

lemma fold_update_distinct:
  "distinct (map fst (acc @ xs)) \<Longrightarrow>
   fold (\<lambda>(k, v) normalized. AList.update k v normalized) xs acc = acc @ xs"
proof (induction xs arbitrary: acc)
  case Nil
  then show ?case by simp
next
  case (Cons a xs)
  obtain k v where a: "a = (k, v)" by (cases a)
  from Cons.prems a have "k \<notin> fst ` set acc" by auto
  then have u: "AList.update k v acc = acc @ [(k, v)]" by (rule update_fresh)
  from Cons.prems a have "distinct (map fst ((acc @ [(k, v)]) @ xs))" by simp
  from Cons.IH[OF this] show ?case using a u by simp
qed

lemma copy_entries_distinct_id: "distinct (map fst s) \<Longrightarrow> copy_entries s = s"
  using fold_update_distinct[of "[]" s] by (simp add: copy_entries_def)

lemma fold_update_keeps_distinct:
  "distinct (map fst acc) \<Longrightarrow>
   distinct (map fst (fold (\<lambda>(k, v) normalized. AList.update k v normalized) xs acc))"
  by (induction xs arbitrary: acc) (auto simp: distinct_update)

lemma copy_entries_distinct: "distinct (map fst (copy_entries s))"
  by (simp add: copy_entries_def fold_update_keeps_distinct)

lemma map_of_fold_update:
  "map_of (fold (\<lambda>(k, v) normalized. AList.update k v normalized) xs acc) k =
   (case map_of (rev xs) k of Some v \<Rightarrow> Some v | None \<Rightarrow> map_of acc k)"
  by (induction xs arbitrary: acc) (auto simp: update_conv' split: option.splits)

lemma map_of_rev_None: "map_of (rev xs) k = None \<longleftrightarrow> map_of xs k = None"
  by (simp add: map_of_eq_None_iff)

lemma copy_entries_None: "map_of (copy_entries s) k = None \<longleftrightarrow> map_of s k = None"
proof -
  have "map_of (copy_entries s) k = None \<longleftrightarrow> map_of (rev s) k = None"
    by (simp add: copy_entries_def map_of_fold_update split: option.splits)
  then show ?thesis by (simp add: map_of_rev_None)
qed

lemma validate_distinct: "distinct (map fst (validateAndNormalizeJSONSchema s))"
  by (simp add: validateAndNormalizeJSONSchema_def Let_def distinct_update copy_entries_distinct)

lemma validate_has_type: "map_of (validateAndNormalizeJSONSchema s) ''type'' \<noteq> None"
  by (simp add: validateAndNormalizeJSONSchema_def Let_def update_conv')

lemma validate_has_schema: "map_of (validateAndNormalizeJSONSchema s) ''$schema'' \<noteq> None"
  by (simp add: validateAndNormalizeJSONSchema_def Let_def update_conv')

lemma validate_has_properties:
  "map_of (validateAndNormalizeJSONSchema s) ''type'' = Some (VString ''object'') \<Longrightarrow>
   map_of (validateAndNormalizeJSONSchema s) ''properties'' \<noteq> None"
  by (auto simp add: validateAndNormalizeJSONSchema_def Let_def update_conv' split: if_splits)

lemma validate_fixpoint:
  assumes "distinct (map fst n)" "map_of n ''type'' \<noteq> None" "map_of n ''$schema'' \<noteq> None"
    "map_of n ''type'' = Some (VString ''object'') \<Longrightarrow> map_of n ''properties'' \<noteq> None"
  shows "validateAndNormalizeJSONSchema n = n"
  using assms
  by (auto simp add: validateAndNormalizeJSONSchema_def Let_def copy_entries_distinct_id)

lemma validate_idem:
  "validateAndNormalizeJSONSchema (validateAndNormalizeJSONSchema s) =
   validateAndNormalizeJSONSchema s"
  by (rule validate_fixpoint)
    (auto simp: validate_distinct validate_has_type validate_has_schema validate_has_properties)

lemma normalizeSchema_decode:
  "normalizeSchema L s =
     (case decodeSchema L s of
        Inl e \<Rightarrow> Inl e
      | Inr m \<Rightarrow> Inr (validateAndNormalizeJSONSchema m))"
  by (cases "(L, s)" rule: normalizeSchema.cases) (simp_all split: sum.splits)

lemma validate_no_type:
  assumes "map_of m ''type'' = None"
  shows "map_of (validateAndNormalizeJSONSchema m) ''type'' = Some (VString ''object'')"
  using assms
  by (simp add: validateAndNormalizeJSONSchema_def Let_def update_conv' copy_entries_None)

lemma fold_assign_last:
  "fold (\<lambda>(k, v) st. map_assign (length st0) k v st) xs (st0 @ [acc]) =
   st0 @ [fold (\<lambda>(k, v) normalized. AList.update k v normalized) xs acc]"
  by (induction xs arbitrary: acc) (auto simp: map_assign_def)

text \<open>
  On a store the function allocates one map, writes only to it, and leaves in it what
  the function on values returns.
\<close>

lemma validate_store_eq:
  assumes "schema < length st"
  shows "validateAndNormalizeJSONSchema_store schema st =
         (length st, st @ [validateAndNormalizeJSONSchema (st ! schema)])"
proof -
  have a: "fold (\<lambda>(k, v) st'. map_assign (length st) k v st') (st ! schema) (st @ [[]]) =
        st @ [copy_entries (st ! schema)]"
    by (simp add: fold_assign_last copy_entries_def)
  have b: "map_assign (length st) k v (st @ [n]) = st @ [AList.update k v n]" for k v n
    by (simp add: map_assign_def)
  have c: "(if P then map_assign (length st) k v (st @ [n]) else st @ [n]) =
           st @ [if P then AList.update k v n else n]" for P k v n
    by (simp add: b)
  have d: "(if P then st @ [x] else st @ [y]) = st @ [if P then x else y]" for P x y
    by simp
  show ?thesis using assms
    by (simp add: validateAndNormalizeJSONSchema_store_def make_map_def nth_append a b c d
        validateAndNormalizeJSONSchema_def Let_def split del: if_split cong: if_cong)
qed

lemma demo_normalized:
  "normalizeSchema demo_lib (VString ''{}'') =
   Inr [(''type'', VString ''object''), (''properties'', VMap []),
        (''$schema'', VString draft07)]"
  by (simp add: demo_lib_def validateAndNormalizeJSONSchema_def copy_entries_def)

text \<open>
  Claim C5. Schema normalization is idempotent: for every schema input \<open>s\<close> that can be
  decoded, that is for which \<open>normalizeSchema\<close> returns a mapping \<open>m\<close> and no error,
  normalizing \<open>m\<close> again returns \<open>m\<close> itself.
\<close>

theorem normalizeSchema_idempotent:
  assumes "normalizeSchema L s = Inr m"
  shows "normalizeSchema L (VMap m) = Inr m"
proof -
  from assms obtain d where "m = validateAndNormalizeJSONSchema d"
    by (auto simp: normalizeSchema_decode split: sum.splits)
  then show ?thesis by (simp add: validate_idem)
qed

theorem normalizeSchema_idempotent_witness:
  "normalizeSchema demo_lib (VString ''{}'') =
     Inr [(''type'', VString ''object''), (''properties'', VMap []),
          (''$schema'', VString draft07)] \<and>
   normalizeSchema demo_lib
     (VMap [(''type'', VString ''object''), (''properties'', VMap []),
            (''$schema'', VString draft07)]) =
     Inr [(''type'', VString ''object''), (''properties'', VMap []),
          (''$schema'', VString draft07)]"
  using normalizeSchema_idempotent [OF demo_normalized] demo_normalized by simp

text \<open>
  Claim C6. For every schema input that can be decoded, to a mapping \<open>m\<close>, and whose
  mapping has no key \<^verbatim>\<open>type\<close>, normalization returns a mapping \<open>r\<close> in which
  \<^verbatim>\<open>type\<close> is the string \<^verbatim>\<open>object\<close> and the key \<^verbatim>\<open>properties\<close> is
  present. The caller's schema is not mutated: wherever \<open>m\<close> lies in a store of maps,
  the function puts \<open>r\<close> into a new map at the end of the store and leaves every map
  that was there as it was.
\<close>

theorem normalizeSchema_defaults_type:
  assumes "decodeSchema L s = Inr m" and "map_of m ''type'' = None"
  shows "\<exists>r. normalizeSchema L s = Inr r \<and>
             map_of r ''type'' = Some (VString ''object'') \<and>
             (\<exists>p. map_of r ''properties'' = Some p) \<and>
             (\<forall>st a. a < length st \<and> st ! a = m \<longrightarrow>
                validateAndNormalizeJSONSchema_store a st = (length st, st @ [r]))"
proof -
  let ?r = "validateAndNormalizeJSONSchema m"
  have 1: "normalizeSchema L s = Inr ?r"
    using assms(1) by (simp add: normalizeSchema_decode)
  have 2: "map_of ?r ''type'' = Some (VString ''object'')"
    using assms(2) by (rule validate_no_type)
  have 3: "\<exists>p. map_of ?r ''properties'' = Some p"
    using validate_has_properties[OF 2] by auto
  have 4: "\<forall>st a. a < length st \<and> st ! a = m \<longrightarrow>
             validateAndNormalizeJSONSchema_store a st = (length st, st @ [?r])"
    by (auto simp: validate_store_eq)
  from 1 2 3 4 show ?thesis by blast
qed

theorem normalizeSchema_defaults_type_witness:
  "decodeSchema demo_lib (VString ''{}'') = Inr [] \<and>
   map_of ([] :: int jmap) ''type'' = None \<and>
   normalizeSchema demo_lib (VString ''{}'') =
     Inr [(''type'', VString ''object''), (''properties'', VMap []),
          (''$schema'', VString draft07)] \<and>
   validateAndNormalizeJSONSchema_store 0 [[] :: int jmap] =
     (1, [[], [(''type'', VString ''object''), (''properties'', VMap []),
               (''$schema'', VString draft07)]])"
proof -
  have d: "decodeSchema demo_lib (VString ''{}'') = Inr []"
    by (simp add: demo_lib_def)
  have t: "map_of ([] :: int jmap) ''type'' = None"
    by simp
  from normalizeSchema_defaults_type [OF d t]
  obtain r where r: "normalizeSchema demo_lib (VString ''{}'') = Inr r"
    and st: "\<forall>st a. a < length st \<and> st ! a = [] \<longrightarrow>
               validateAndNormalizeJSONSchema_store a st = (length st, st @ [r])"
    by blast
  from r demo_normalized
  have r': "r = [(''type'', VString ''object''), (''properties'', VMap []),
                 (''$schema'', VString draft07)]"
    by simp
  from st have "validateAndNormalizeJSONSchema_store 0 [[] :: int jmap] = (1, [[], r])"
    by simp
  with d t r r' show ?thesis by simp
qed

section \<open>Properties of the ValueCoercer\<close>

text \<open>
  Claim C7. For the schema with \<^verbatim>\<open>type\<close> \<^verbatim>\<open>integer\<close>, coercion of the string
  \<^verbatim>\<open>42\<close> returns the integer 42, and coercion of the string \<^verbatim>\<open>abc\<close> returns
  the string unchanged; the coercer has no failure to raise, it returns a value on
  every input. The two facts of Go's library that this rests on are the hypotheses:
  \<^verbatim>\<open>ParseFloat\<close> reads \<^verbatim>\<open>42\<close> as a float that converts to the integer 42,
  and rejects \<^verbatim>\<open>abc\<close>.
\<close>

theorem convertValue_integer_of_string:
  assumes "ParseFloat L ''42'' = Some f"
    and "int64_of_float L f = 42"
    and "ParseFloat L ''abc'' = None"
  shows "convertValueWithSchema L (VString ''42'') (Some [(''type'', VString ''integer'')]) =
           VInt64 42 \<and>
         convertValueWithSchema L (VString ''abc'') (Some [(''type'', VString ''integer'')]) =
           VString ''abc''"
  using assms by (simp add: convertDocNumber_def convertString_def convertNumeric_def)

theorem convertValue_integer_of_string_witness:
  "ParseFloat demo_lib ''42'' = Some 42 \<and>
   int64_of_float demo_lib 42 = 42 \<and>
   ParseFloat demo_lib ''abc'' = None \<and>
   convertValueWithSchema demo_lib (VString ''42'') (Some [(''type'', VString ''integer'')]) =
     VInt64 42 \<and>
   convertValueWithSchema demo_lib (VString ''abc'') (Some [(''type'', VString ''integer'')]) =
     VString ''abc''"
proof -
  have a: "ParseFloat demo_lib ''42'' = Some 42"
    by (simp add: demo_lib_def decimalLiteral_def)
  have b: "int64_of_float demo_lib 42 = 42"
    by (simp add: demo_lib_def)
  have c: "ParseFloat demo_lib ''abc'' = None"
    by (simp add: demo_lib_def decimalLiteral_def)
  from convertValue_integer_of_string [OF a b c] a b c show ?thesis by simp
qed

text \<open>
  Claim C8. For every mapping-valued input and every schema, an object schema or not,
  the output of the coercer is a mapping with the keys of the input, in the order of the
  input: no key of the schema's properties is added, no key of the input is removed,
  only values change. This holds for \<open>convertMapWithSchema\<close> and for
  \<open>convertValueWithSchema\<close> on a mapping.
\<close>

theorem convertMap_keeps_keys:
  fixes L :: "'f golib"
  shows
  "(\<exists>out. convertMapWithSchema L inputMap schema = VMap out \<and>
          map fst out = map fst inputMap \<and> fst ` set out = fst ` set inputMap) \<and>
   (\<exists>out. convertValueWithSchema L (VMap inputMap) schema = VMap out \<and>
          map fst out = map fst inputMap \<and> fst ` set out = fst ` set inputMap)"
proof -
  have m: "\<exists>out. convertMapWithSchema L inputMap schema = VMap out \<and>
                 map fst out = map fst inputMap" for schema
    by (cases schema)
      (auto split: option.splits gvalue.splits simp: case_prod_unfold comp_def)
  have v: "\<exists>out. convertValueWithSchema L (VMap inputMap) schema = VMap out \<and>
                 map fst out = map fst inputMap"
  proof (cases schema)
    case None
    then show ?thesis by simp
  next
    case (Some s)
    have 1: "convertDocNumber L (VMap inputMap) t = None" for t
      by (simp add: convertDocNumber_def)
    have 2: "convertString L (VMap inputMap) t = None" for t
      by (simp add: convertString_def)
    have 3: "convertNumeric L (VMap inputMap) t = None" for t
      by (simp add: convertNumeric_def)
    show ?thesis using m[of "Some s"] Some
      by (auto simp: 1 2 3 simp del: convertMapWithSchema.simps
          split: option.splits gvalue.splits)
  qed
  have s: "fst ` set out = fst ` set inputMap" if "map fst out = map fst inputMap"
    for out :: "'f jmap"
    using that by (metis set_map)
  from m[of schema] obtain out1 where
    o1: "convertMapWithSchema L inputMap schema = VMap out1" "map fst out1 = map fst inputMap"
    by blast
  from v obtain out2 where
    o2: "convertValueWithSchema L (VMap inputMap) schema = VMap out2"
      "map fst out2 = map fst inputMap"
    by blast
  from o1 o2 s[OF o1(2)] s[OF o2(2)] show ?thesis by simp
qed

section \<open>Properties of the ContentBlockMapper\<close>

lemma split_no_sep: "sep \<notin> set s \<Longrightarrow> strings_Split sep s = [s]"
  by (induction s) auto

lemma split_at_sep:
  "sep \<notin> set a \<Longrightarrow> strings_Split sep (a @ sep # b) = a # strings_Split sep b"
  by (induction a) auto

lemma split_comma_url:
  assumes "CHR '','' \<notin> set mime" "CHR '','' \<notin> set d"
  shows "strings_Split CHR '','' (''data:'' @ mime @ '';base64,'' @ d) =
         [''data:'' @ mime @ '';base64'', d]"
proof -
  have "strings_Split CHR '','' ((''data:'' @ mime @ '';base64'') @ CHR '','' # d) =
        (''data:'' @ mime @ '';base64'') # strings_Split CHR '','' d"
    using assms(1) by (intro split_at_sep) simp
  then show ?thesis using assms(2) by (simp add: split_no_sep)
qed

lemma split_colon_header:
  assumes "CHR '':'' \<notin> set mime"
  shows "strings_Split CHR '':'' (''data:'' @ mime @ '';base64'') =
         [''data'', mime @ '';base64'']"
proof -
  have "strings_Split CHR '':'' (''data'' @ CHR '':'' # (mime @ '';base64'')) =
        ''data'' # strings_Split CHR '':'' (mime @ '';base64'')"
    by (intro split_at_sep) simp
  moreover have "strings_Split CHR '':'' (mime @ '';base64'') = [mime @ '';base64'']"
    using assms by (intro split_no_sep) simp
  ultimately show ?thesis by simp
qed

lemma split_semicolon_mime:
  assumes "CHR '';'' \<notin> set mime"
  shows "strings_Split CHR '';'' (mime @ '';base64'') = [mime, ''base64'']"
proof -
  have "strings_Split CHR '';'' (mime @ CHR '';'' # ''base64'') =
        mime # strings_Split CHR '';'' ''base64''"
    using assms by (rule split_at_sep)
  then show ?thesis by simp
qed

lemma parseDataURL_pieces:
  assumes "prefix ''data:'' content"
    and "strings_Split CHR '','' content = [h, d]"
    and "strings_Split CHR '':'' h = u0 # u1 # us"
    and "strings_Split CHR '';'' u1 = m0 # ms"
  shows "parseDataURL content ct = (d, if ct = [] then m0 else ct)"
  using assms by (simp add: parseDataURL_def Let_def)

text \<open>
  A data URL of the form \<^verbatim>\<open>data:<mime>;base64,<data>\<close>: the content is the data,
  the media type is the part's own if it has one, else the one of the URL.
\<close>

lemma parseDataURL_base64:
  assumes "set mime \<inter> {CHR '','', CHR '':'', CHR '';''} = {}" "CHR '','' \<notin> set d"
  shows "parseDataURL (''data:'' @ mime @ '';base64,'' @ d) ct =
         (d, if ct = [] then mime else ct)"
proof -
  from assms(1)
  have m: "CHR '','' \<notin> set mime" "CHR '':'' \<notin> set mime" "CHR '';'' \<notin> set mime"
    by auto
  have p: "prefix ''data:'' (''data:'' @ mime @ '';base64,'' @ d)" by simp
  show ?thesis
    by (rule parseDataURL_pieces[OF p split_comma_url[OF m(1) assms(2)]
          split_colon_header[OF m(2)] split_semicolon_mime[OF m(3)]])
qed

lemma convertPart_media:
  "IsMedia part \<Longrightarrow>
   convertPart L part =
     [ContentBlockMemberImage
        (imageFormat (snd (parseDataURL (Text part) (ContentType part))))
        (case base64_DecodeString L (fst (parseDataURL (Text part) (ContentType part))) of
           Some decoded \<Rightarrow> decoded
         | None \<Rightarrow> fst (parseDataURL (Text part) (ContentType part)))]"
  by (simp add: convertPart_def convertMediaPart_def IsMedia_def IsText_def
      case_prod_unfold Let_def)

lemma split_length: "length (strings_Split sep s) = Suc (count_list s sep)"
  by (induction s) (auto split: list.splits)

lemma split_nonempty: "strings_Split sep s \<noteq> []"
  using split_length[of sep s] by auto

lemma split_hd: "strings_Split sep s ! 0 = takeWhile (\<lambda>c. c \<noteq> sep) s"
  by (induction s) (auto split: list.splits simp: split_nonempty)

lemma split_second:
  "count_list s sep = 1 \<Longrightarrow> strings_Split sep s ! 1 = tl (dropWhile (\<lambda>c. c \<noteq> sep) s)"
proof (induction s)
  case Nil
  then show ?case by simp
next
  case (Cons c cs)
  show ?case
  proof (cases "c = sep")
    case True
    with Cons.prems have "count_list cs sep = 0" by simp
    then have "sep \<notin> set cs" by (simp add: count_list_0_iff)
    then have "strings_Split sep cs = [cs]" by (induction cs) auto
    with True show ?thesis by simp
  next
    case False
    with Cons.prems have c1: "count_list cs sep = 1" by simp
    obtain w ws where ws: "strings_Split sep cs = w # ws"
      using split_nonempty[of sep cs] by (cases "strings_Split sep cs") auto
    from Cons.IH[OF c1] ws False show ?thesis by simp
  qed
qed

lemma takeWhile_twice:
  "takeWhile P (takeWhile Q xs) = takeWhile (\<lambda>x. Q x \<and> P x) xs"
  by (induction xs) auto

lemma split_colon_data:
  "strings_Split CHR '':'' (''data:'' @ rest) = ''data'' # strings_Split CHR '':'' rest"
  by simp

lemma parseDataURL_spec:
  "parseDataURL content mediaType =
     (spec_dataURLPayload content, if mediaType = [] then spec_dataURLMime content else mediaType)"
proof (cases "spec_isDataURL content")
  case False
  then show ?thesis
    by (auto simp: parseDataURL_def spec_isDataURL_def spec_dataURLPayload_def spec_dataURLMime_def
        split_length Let_def)
next
  case True
  then obtain rest where c: "content = ''data:'' @ rest" and n: "count_list content CHR '','' = 1"
    by (auto simp: spec_isDataURL_def prefix_def)
  have p: "prefix ''data:'' content" using True by (simp add: spec_isDataURL_def)
  have l: "length (strings_Split CHR '','' content) = 2" using n by (simp add: split_length)
  have h: "strings_Split CHR '','' content ! 0 = ''data:'' @ takeWhile (\<lambda>c. c \<noteq> CHR '','') rest"
    by (subst split_hd) (simp add: c)
  have u: "strings_Split CHR '':'' (''data:'' @ takeWhile (\<lambda>c. c \<noteq> CHR '','') rest) =
           ''data'' # strings_Split CHR '':'' (takeWhile (\<lambda>c. c \<noteq> CHR '','') rest)"
    by (rule split_colon_data)
  obtain v vs where v: "strings_Split CHR '':'' (takeWhile (\<lambda>c. c \<noteq> CHR '','') rest) = v # vs"
    using split_nonempty by (metis list.exhaust)
  have v0: "v = takeWhile (\<lambda>c. c \<noteq> CHR '':'') (takeWhile (\<lambda>c. c \<noteq> CHR '','') rest)"
    using split_hd[of "CHR '':''" "takeWhile (\<lambda>c. c \<noteq> CHR '','') rest"] v by simp
  obtain m ms where m: "strings_Split CHR '';'' v = m # ms"
    using split_nonempty by (metis list.exhaust)
  have m0: "m = takeWhile (\<lambda>c. c \<noteq> CHR '';'') v"
    using split_hd[of "CHR '';''" v] m by simp
  have mime: "m = spec_dataURLMime content"
    using True by (simp add: m0 v0 spec_dataURLMime_def c takeWhile_twice conj_commute conj_left_commute)
  have pay: "strings_Split CHR '','' content ! 1 = spec_dataURLPayload content"
    using True split_second[OF n] by (simp add: spec_dataURLPayload_def)
  have "parseDataURL content mediaType =
          (strings_Split CHR '','' content ! 1, if mediaType = [] then m else mediaType)"
    unfolding parseDataURL_def Let_def
    by (simp only: p l h u v m if_True) (simp add: m)
  with pay mime show ?thesis by simp
qed

lemma convertPart_media_spec:
  assumes "IsMedia part"
  shows "convertPart L part =
     [ContentBlockMemberImage
        (imageFormat (if ContentType part = [] then spec_dataURLMime (Text part)
                      else ContentType part))
        (case base64_DecodeString L (spec_dataURLPayload (Text part)) of
           Some decoded \<Rightarrow> decoded
         | None \<Rightarrow> spec_dataURLPayload (Text part))]"
  by (simp add: convertPart_media[OF assms] parseDataURL_spec cong: option.case_cong)

lemma jpeg_url_mime:
  assumes "CHR '','' \<notin> set d"
  shows "spec_isDataURL (''data:image/jpeg;base64,'' @ d)"
    and "spec_dataURLMime (''data:image/jpeg;base64,'' @ d) = ''image/jpeg''"
    and "spec_dataURLPayload (''data:image/jpeg;base64,'' @ d) = d"
proof -
  have n: "count_list d CHR '','' = 0" using assms by (simp add: count_list_0_iff)
  show i: "spec_isDataURL (''data:image/jpeg;base64,'' @ d)"
    by (simp add: spec_isDataURL_def n)
  show "spec_dataURLMime (''data:image/jpeg;base64,'' @ d) = ''image/jpeg''"
    unfolding spec_dataURLMime_def using i by simp
  show "spec_dataURLPayload (''data:image/jpeg;base64,'' @ d) = d"
    unfolding spec_dataURLPayload_def using i by simp
qed

lemma demo_urls:
  "spec_dataURLMime ''data:image/jpeg;base64,aGk='' = ''image/jpeg''"
  "spec_dataURLPayload ''data:image/jpeg;base64,aGk='' = ''aGk=''"
  "spec_dataURLMime ''data:image/tiff;base64,aGk='' = ''image/tiff''"
  "spec_dataURLPayload ''data:image/tiff;base64,aGk='' = ''aGk=''"
  "spec_dataURLMime ''data:image/gif,aGk='' = ''image/gif''"
  "spec_dataURLPayload ''data:image/gif,aGk='' = ''aGk=''"
  by (simp_all add: spec_dataURLMime_def spec_dataURLPayload_def spec_isDataURL_def)

lemma demo_media_jpeg:
  "parseDataURL ''data:image/jpeg;base64,aGk='' ct =
     (''aGk='', if ct = [] then ''image/jpeg'' else ct)"
  using parseDataURL_base64[of "''image/jpeg''" "''aGk=''" ct] by simp

text \<open>
  Claim C9, as it is stated, fails: a media part that carries its own MIME type keeps
  it, whatever the data URL says. Here the part says \<^verbatim>\<open>image/png\<close>, the payload is a
  data URL of type \<^verbatim>\<open>image/jpeg\<close> with valid base64 data, and the block has the
  format png.
\<close>

theorem media_jpeg_url_counterexample:
  "convertPart demo_lib (NewMediaPart ''image/png'' ''data:image/jpeg;base64,aGk='') =
     [ContentBlockMemberImage ImageFormatPng ''hi'']"
  by (simp add: convertPart_def convertMediaPart_def demo_media_jpeg NewMediaPart_def
      IsText_def IsMedia_def imageFormat_def demo_lib_def)

text \<open>
  Claim C9, amended. For every media part the mapper produces one image block. Its
  bytes are the decoded data of the payload (the data as they are if decoding fails).
  Its format is read off the part's MIME type by the table: \<^verbatim>\<open>image/png\<close> gives
  png, \<^verbatim>\<open>image/jpeg\<close> and \<^verbatim>\<open>image/jpg\<close> give jpeg, \<^verbatim>\<open>image/gif\<close>
  gives gif, \<^verbatim>\<open>image/webp\<close> gives webp, and every type that is not in the table
  gives png. The MIME type of the part is its own field if that is set, whatever the
  data URL says; if it is unset, it is the MIME type of the payload read as a data URL.
  So a part whose own type is unset, or is \<^verbatim>\<open>image/jpeg\<close> or \<^verbatim>\<open>image/jpg\<close>,
  and whose payload is \<^verbatim>\<open>data:image/jpeg;base64,<data>\<close> with no comma in the
  data (base64 text has none) gets the format jpeg.
\<close>

theorem media_part_format:
  assumes "IsMedia part"
  shows "\<exists>fmt.
           convertPart L part =
             [ContentBlockMemberImage fmt
                (case base64_DecodeString L (spec_dataURLPayload (Text part)) of
                   Some decoded \<Rightarrow> decoded
                 | None \<Rightarrow> spec_dataURLPayload (Text part))] \<and>
           (let mime = (if ContentType part = [] then spec_dataURLMime (Text part)
                        else ContentType part)
            in (mime = ''image/png'' \<longrightarrow> fmt = ImageFormatPng) \<and>
               (mime = ''image/jpeg'' \<or> mime = ''image/jpg'' \<longrightarrow> fmt = ImageFormatJpeg) \<and>
               (mime = ''image/gif'' \<longrightarrow> fmt = ImageFormatGif) \<and>
               (mime = ''image/webp'' \<longrightarrow> fmt = ImageFormatWebp) \<and>
               (mime \<notin> {''image/png'', ''image/jpeg'', ''image/jpg'', ''image/gif'',
                          ''image/webp''} \<longrightarrow> fmt = ImageFormatPng)) \<and>
           (CHR '','' \<notin> set d \<and> Text part = ''data:image/jpeg;base64,'' @ d \<and>
            ContentType part \<in> {[], ''image/jpeg'', ''image/jpg''} \<longrightarrow>
              convertPart L part =
                [ContentBlockMemberImage ImageFormatJpeg
                   (case base64_DecodeString L d of
                      Some decoded \<Rightarrow> decoded
                    | None \<Rightarrow> d)])"
proof -
  let ?mime = "if ContentType part = [] then spec_dataURLMime (Text part) else ContentType part"
  let ?bytes = "case base64_DecodeString L (spec_dataURLPayload (Text part)) of
                   Some decoded \<Rightarrow> decoded
                 | None \<Rightarrow> spec_dataURLPayload (Text part)"
  have c: "convertPart L part = [ContentBlockMemberImage (imageFormat ?mime) ?bytes]"
    by (rule convertPart_media_spec[OF assms])
  have t: "(?mime = ''image/png'' \<longrightarrow> imageFormat ?mime = ImageFormatPng) \<and>
               (?mime = ''image/jpeg'' \<or> ?mime = ''image/jpg'' \<longrightarrow> imageFormat ?mime = ImageFormatJpeg) \<and>
               (?mime = ''image/gif'' \<longrightarrow> imageFormat ?mime = ImageFormatGif) \<and>
               (?mime = ''image/webp'' \<longrightarrow> imageFormat ?mime = ImageFormatWebp) \<and>
               (?mime \<notin> {''image/png'', ''image/jpeg'', ''image/jpg'', ''image/gif'',
                          ''image/webp''} \<longrightarrow> imageFormat ?mime = ImageFormatPng)"
    by (simp add: imageFormat_def)
  have j: "convertPart L part =
                [ContentBlockMemberImage ImageFormatJpeg
                   (case base64_DecodeString L d of
                      Some decoded \<Rightarrow> decoded
                    | None \<Rightarrow> d)]"
    if "CHR '','' \<notin> set d" "Text part = ''data:image/jpeg;base64,'' @ d"
      "ContentType part \<in> {[], ''image/jpeg'', ''image/jpg''}"
  proof -
    have m: "spec_dataURLMime (Text part) = ''image/jpeg''" and p: "spec_dataURLPayload (Text part) = d"
      unfolding that(2) using jpeg_url_mime[OF that(1)] by simp_all
    have "imageFormat ?mime = ImageFormatJpeg"
      using that(3) by (auto simp: m imageFormat_def)
    then show ?thesis unfolding c by (simp add: p cong: option.case_cong)
  qed
  show ?thesis
  proof (intro exI[of _ "imageFormat ?mime"] conjI)
    show "convertPart L part = [ContentBlockMemberImage (imageFormat ?mime) ?bytes]" by (rule c)
    show "let mime = ?mime
            in (mime = ''image/png'' \<longrightarrow> imageFormat ?mime = ImageFormatPng) \<and>
               (mime = ''image/jpeg'' \<or> mime = ''image/jpg'' \<longrightarrow> imageFormat ?mime = ImageFormatJpeg) \<and>
               (mime = ''image/gif'' \<longrightarrow> imageFormat ?mime = ImageFormatGif) \<and>
               (mime = ''image/webp'' \<longrightarrow> imageFormat ?mime = ImageFormatWebp) \<and>
               (mime \<notin> {''image/png'', ''image/jpeg'', ''image/jpg'', ''image/gif'',
                          ''image/webp''} \<longrightarrow> imageFormat ?mime = ImageFormatPng)"
      unfolding Let_def by (rule t)
    show "CHR '','' \<notin> set d \<and> Text part = ''data:image/jpeg;base64,'' @ d \<and>
            ContentType part \<in> {[], ''image/jpeg'', ''image/jpg''} \<longrightarrow>
              convertPart L part =
                [ContentBlockMemberImage ImageFormatJpeg
                   (case base64_DecodeString L d of
                      Some decoded \<Rightarrow> decoded
                    | None \<Rightarrow> d)]"
      using j by blast
  qed
qed

theorem media_part_format_witness:
  "convertPart demo_lib (NewMediaPart [] ''data:image/jpeg;base64,aGk='') =
     [ContentBlockMemberImage ImageFormatJpeg ''hi''] \<and>
   convertPart demo_lib (NewMediaPart ''image/gif'' ''data:image/jpeg;base64,aGk='') =
     [ContentBlockMemberImage ImageFormatGif ''hi''] \<and>
   convertPart demo_lib (NewMediaPart [] ''data:image/tiff;base64,aGk='') =
     [ContentBlockMemberImage ImageFormatPng ''hi''] \<and>
   convertPart demo_lib (NewMediaPart [] ''data:image/gif,aGk='') =
     [ContentBlockMemberImage ImageFormatGif ''hi'']"
proof -
  have m: "IsMedia (NewMediaPart ct content :: int part)" for ct content
    by (simp add: IsMedia_def NewMediaPart_def)
  have b: "base64_DecodeString demo_lib ''aGk='' = Some ''hi''"
    by (simp add: demo_lib_def)
  have 1: "convertPart demo_lib (NewMediaPart [] ''data:image/jpeg;base64,aGk='') =
     [ContentBlockMemberImage ImageFormatJpeg ''hi'']"
    using media_part_format
      [OF m, of demo_lib "[]" "''data:image/jpeg;base64,aGk=''" "''aGk=''"] b
    by (auto simp: NewMediaPart_def)
  have 2: "convertPart demo_lib (NewMediaPart ''image/gif'' ''data:image/jpeg;base64,aGk='') =
     [ContentBlockMemberImage ImageFormatGif ''hi'']"
    using media_part_format
      [OF m, of demo_lib "''image/gif''" "''data:image/jpeg;base64,aGk=''" "[]"] b
    by (auto simp: NewMediaPart_def demo_urls Let_def)
  have 3: "convertPart demo_lib (NewMediaPart [] ''data:image/tiff;base64,aGk='') =
     [ContentBlockMemberImage ImageFormatPng ''hi'']"
    using media_part_format
      [OF m, of demo_lib "[]" "''data:image/tiff;base64,aGk=''" "[]"] b
    by (auto simp: NewMediaPart_def demo_urls Let_def)
  have 4: "convertPart demo_lib (NewMediaPart [] ''data:image/gif,aGk='') =
     [ContentBlockMemberImage ImageFormatGif ''hi'']"
    using media_part_format
      [OF m, of demo_lib "[]" "''data:image/gif,aGk=''" "[]"] b
    by (auto simp: NewMediaPart_def demo_urls Let_def)
  from 1 2 3 4 show ?thesis by (intro conjI)
qed

section \<open>Properties of the ConverseRequestBuilder\<close>

lemma buildMessages_Nil: "buildMessages L [] = ([], [])"
  by (simp add: buildMessages_def)

lemma demo_built:
  "buildMessages demo_lib (Messages demo_request) =
     ([\<lparr>wire_Role = ConversationRoleUser,
        wire_Content = [ContentBlockMemberText ''What is the weather?'']\<rparr>,
       \<lparr>wire_Role = ConversationRoleAssistant,
        wire_Content = [ContentBlockMemberText ''Let me check.'']\<rparr>], [])"
  by (simp add: demo_request_def buildMessages_def convertMessage_def convertPart_def
      NewTextPart_def IsText_def RoleUser_def RoleModel_def RoleSystem_def RoleTool_def)

text \<open>
  Claim C1. Take a request whose messages build a wire message list \<open>built\<close> that ends
  with an assistant message. If the request has a tool, the request builder sends
  \<open>built\<close> without its last message; the same request with no tools is sent with
  \<open>built\<close> as it is.
\<close>

theorem trailing_assistant_turn:
  assumes "buildMessages L (Messages input) = (built, sys)"
    and "built \<noteq> []"
    and "wire_Role (last built) = ConversationRoleAssistant"
  shows "(Tools input \<noteq> [] \<longrightarrow>
            (\<exists>ci. buildConverseInput L modelName input = Inr ci \<and>
                  wire_Messages ci = butlast built)) \<and>
         (\<exists>ci. buildConverseInput L modelName (input\<lparr>Tools := []\<rparr>) = Inr ci \<and>
               wire_Messages ci = built)"
proof -
  have ne: "Messages input \<noteq> []"
    using assms(1,2) by (auto simp: buildMessages_Nil)
  show ?thesis using assms ne
    by (simp add: buildConverseInput_def dropTrailingAssistant_def Let_def)
qed

theorem trailing_assistant_turn_witness:
  "buildMessages demo_lib (Messages demo_request) =
     ([\<lparr>wire_Role = ConversationRoleUser,
        wire_Content = [ContentBlockMemberText ''What is the weather?'']\<rparr>,
       \<lparr>wire_Role = ConversationRoleAssistant,
        wire_Content = [ContentBlockMemberText ''Let me check.'']\<rparr>], []) \<and>
   Tools demo_request \<noteq> [] \<and>
   (\<exists>ci. buildConverseInput demo_lib ''anthropic.claude-3-haiku-20240307-v1:0'' demo_request =
            Inr ci \<and>
         wire_Messages ci =
           [\<lparr>wire_Role = ConversationRoleUser,
             wire_Content = [ContentBlockMemberText ''What is the weather?'']\<rparr>]) \<and>
   (\<exists>ci. buildConverseInput demo_lib ''anthropic.claude-3-haiku-20240307-v1:0''
            (demo_request\<lparr>Tools := []\<rparr>) = Inr ci \<and>
         wire_Messages ci =
           [\<lparr>wire_Role = ConversationRoleUser,
             wire_Content = [ContentBlockMemberText ''What is the weather?'']\<rparr>,
            \<lparr>wire_Role = ConversationRoleAssistant,
             wire_Content = [ContentBlockMemberText ''Let me check.'']\<rparr>])"
proof -
  have t: "Tools demo_request \<noteq> []"
    by (simp add: demo_request_def)
  from trailing_assistant_turn
         [OF demo_built, of "''anthropic.claude-3-haiku-20240307-v1:0''"] t demo_built
  show ?thesis by simp
qed

section \<open>Properties of the response converter\<close>

lemma convertContentBlock_length:
  "length (convertContentBlock L tools block) = (if isTextOrToolUse block then 1 else 0)"
  by (cases block) (simp_all add: convertContentBlock_def Let_def)

lemma extracted_length:
  "length (concat (map (convertContentBlock L tools) blocks)) =
   length (filter isTextOrToolUse blocks)"
  by (induction blocks) (simp_all add: convertContentBlock_length)

lemma convertResponse_content:
  "Content (resp_Message (convertResponse L response originalInput)) =
     (let extracted = concat (map (convertContentBlock L (Tools originalInput)) (outputBlocks response))
      in if extracted = [] then [NewTextPart []] else extracted)"
proof (cases "Output response")
  case None
  then show ?thesis by (simp add: convertResponse_def outputBlocks_def Let_def)
next
  case (Some member)
  then show ?thesis
    by (cases member) (simp_all add: convertResponse_def outputBlocks_def Let_def)
qed

text \<open>
  Claim C10. For every wire response of the non-streaming path, the generic response has
  a message of the model role with a content list that is not empty. If the wire output
  holds no text block and no tool-use block, the content is the single part of the
  empty text; else it holds one part for each text or tool-use block, and nothing else.
\<close>

theorem convertResponse_content_nonempty:
  "Role (resp_Message (convertResponse L response originalInput)) = RoleModel \<and>
   Content (resp_Message (convertResponse L response originalInput)) \<noteq> [] \<and>
   (if filter isTextOrToolUse (outputBlocks response) = []
    then Content (resp_Message (convertResponse L response originalInput)) = [NewTextPart []]
    else Content (resp_Message (convertResponse L response originalInput)) =
           concat (map (convertContentBlock L (Tools originalInput)) (outputBlocks response)) \<and>
         length (Content (resp_Message (convertResponse L response originalInput))) =
           length (filter isTextOrToolUse (outputBlocks response)))"
proof -
  let ?extracted = "concat (map (convertContentBlock L (Tools originalInput)) (outputBlocks response))"
  have r: "Role (resp_Message (convertResponse L response originalInput)) = RoleModel"
    by (simp add: convertResponse_def Let_def)
  have l: "length ?extracted = length (filter isTextOrToolUse (outputBlocks response))"
    by (rule extracted_length)
  have e: "?extracted = [] \<longleftrightarrow> filter isTextOrToolUse (outputBlocks response) = []"
    using l by (metis length_0_conv)
  show ?thesis
    using r l e by (simp add: convertResponse_content Let_def)
qed

section \<open>Properties of the StreamAggregator\<close>

text \<open>A callback that fails on the next text delta ends the loop there.\<close>

lemma processEvents_fail_first:
  "textDeltas events = t # rest \<Longrightarrow> cb (cb_state st) (textChunk t) = (Some e, s') \<Longrightarrow>
   \<exists>st'. processEvents cb events st = (Some (CallbackError e), st') \<and>
         cb_log st' = cb_log st @ [textChunk t] \<and> cb_state st' = s'"
proof (induction cb events st rule: processEvents.induct)
  case (1 cb st)
  then show ?case by simp
next
  case (2 cb delta events st)
  then show ?case by (simp add: Let_def)
next
  case (3 cb stopReason events st)
  then show ?case by simp
qed simp_all

lemma processEvents_fail_second:
  "textDeltas events = t1 # t2 # rest \<Longrightarrow>
   cb (cb_state st) (textChunk t1) = (None, s1) \<Longrightarrow>
   cb s1 (textChunk t2) = (Some e, s2) \<Longrightarrow>
   \<exists>st'. processEvents cb events st = (Some (CallbackError e), st') \<and>
         cb_log st' = cb_log st @ [textChunk t1, textChunk t2] \<and> cb_state st' = s2"
proof (induction cb events st rule: processEvents.induct)
  case (1 cb st)
  then show ?case by simp
next
  case (2 cb delta events st)
  let ?st = "st\<lparr>fullText := fullText st @ delta, cb_state := s1,
                  cb_log := cb_log st @ [textChunk delta]\<rparr>"
  from 2 have t: "delta = t1" and d: "textDeltas events = t2 # rest" by simp_all
  from processEvents_fail_first[OF d, of cb ?st e s2] 2(4)
  obtain st' where "processEvents cb events ?st = (Some (CallbackError e), st')"
     "cb_log st' = cb_log ?st @ [textChunk t2]" "cb_state st' = s2" by auto
  with 2(3) t show ?case by (simp add: Let_def)
next
  case (3 cb stopReason events st)
  then show ?case by simp
qed simp_all

text \<open>
  Claim C3. The stream delivers the three text deltas \<^verbatim>\<open>Hel\<close>, \<^verbatim>\<open>lo \<close> and
  \<^verbatim>\<open>world\<close> and ends, with no message-stop event, and the run reaches the end of
  the stream: the callback reports no failure on any of the three chunks (a failure
  would end the run before the stream does). Then the callback was called three times, in
  the order of the events: first with the chunk of index 0 whose only part is the text
  \<^verbatim>\<open>Hel\<close>, then with the one for \<^verbatim>\<open>lo \<close>, then with the one for
  \<^verbatim>\<open>world\<close>, so the texts passed are \<^verbatim>\<open>Hel\<close>, \<^verbatim>\<open>lo \<close>,
  \<^verbatim>\<open>world\<close> and no more. The result is a response of the model role whose only
  part is the text \<^verbatim>\<open>Hello world\<close>, with the finish reason stop, and the stream
  is closed.
\<close>

theorem stream_hello_world:
  assumes "ConverseStream client input =
             Inr [ConverseStreamOutputMemberContentBlockDelta
                    (Some (ContentBlockDeltaMemberText ''Hel'')),
                  ConverseStreamOutputMemberContentBlockDelta
                    (Some (ContentBlockDeltaMemberText ''lo '')),
                  ConverseStreamOutputMemberContentBlockDelta
                    (Some (ContentBlockDeltaMemberText ''world''))]"
    and "cb s0 \<lparr>chunk_Index = 0, chunk_Content = [NewTextPart ''Hel'']\<rparr> = (None, s1)"
    and "cb s1 \<lparr>chunk_Index = 0, chunk_Content = [NewTextPart ''lo '']\<rparr> = (None, s2)"
    and "cb s2 \<lparr>chunk_Index = 0, chunk_Content = [NewTextPart ''world'']\<rparr> = (None, s3)"
  shows "generateTextStream client input originalInput cb s0 =
           \<lparr>run_result =
              Inr \<lparr>resp_Message =
                     \<lparr>Role = RoleModel, Content = [NewTextPart ''Hello world'']\<rparr>,
                   resp_FinishReason = FinishReasonStop, resp_Usage = None\<rparr>,
            run_closed = True,
            run_calls = [\<lparr>chunk_Index = 0, chunk_Content = [NewTextPart ''Hel'']\<rparr>,
                         \<lparr>chunk_Index = 0, chunk_Content = [NewTextPart ''lo '']\<rparr>,
                         \<lparr>chunk_Index = 0, chunk_Content = [NewTextPart ''world'']\<rparr>],
            run_cb_state = s3\<rparr> \<and>
         map (\<lambda>chunk. map Text (chunk_Content chunk))
           (run_calls (generateTextStream client input originalInput cb s0)) =
           [[''Hel''], [''lo ''], [''world'']] \<and>
         (case run_result (generateTextStream client input originalInput cb s0) of
            Inl err \<Rightarrow> False
          | Inr response \<Rightarrow>
              map Text (Content (resp_Message response)) = [''Hello world''] \<and>
              map Kind (Content (resp_Message response)) = [PartText])"
proof -
  have run: "generateTextStream client input originalInput cb s0 =
           \<lparr>run_result =
              Inr \<lparr>resp_Message =
                     \<lparr>Role = RoleModel, Content = [NewTextPart ''Hello world'']\<rparr>,
                   resp_FinishReason = FinishReasonStop, resp_Usage = None\<rparr>,
            run_closed = True,
            run_calls = [\<lparr>chunk_Index = 0, chunk_Content = [NewTextPart ''Hel'']\<rparr>,
                         \<lparr>chunk_Index = 0, chunk_Content = [NewTextPart ''lo '']\<rparr>,
                         \<lparr>chunk_Index = 0, chunk_Content = [NewTextPart ''world'']\<rparr>],
            run_cb_state = s3\<rparr>"
    using assms by (simp add: generateTextStream_def textResponse_def textChunk_def)
  show ?thesis
    unfolding run by (simp add: NewTextPart_def)
qed

theorem stream_hello_world_witness:
  "ConverseStream demo_client demo_input =
     Inr [ConverseStreamOutputMemberContentBlockDelta
            (Some (ContentBlockDeltaMemberText ''Hel'')),
          ConverseStreamOutputMemberContentBlockDelta
            (Some (ContentBlockDeltaMemberText ''lo '')),
          ConverseStreamOutputMemberContentBlockDelta
            (Some (ContentBlockDeltaMemberText ''world''))] \<and>
   countingCallback 0 \<lparr>chunk_Index = 0, chunk_Content = [NewTextPart ''Hel'']\<rparr> = (None, 1) \<and>
   countingCallback 1 \<lparr>chunk_Index = 0, chunk_Content = [NewTextPart ''lo '']\<rparr> = (None, 2) \<and>
   countingCallback 2 \<lparr>chunk_Index = 0, chunk_Content = [NewTextPart ''world'']\<rparr> = (None, 3) \<and>
   generateTextStream demo_client demo_input demo_request countingCallback 0 =
     \<lparr>run_result =
        Inr \<lparr>resp_Message =
               \<lparr>Role = RoleModel, Content = [NewTextPart ''Hello world'']\<rparr>,
             resp_FinishReason = FinishReasonStop, resp_Usage = None\<rparr>,
      run_closed = True,
      run_calls = [\<lparr>chunk_Index = 0, chunk_Content = [NewTextPart ''Hel'']\<rparr>,
                   \<lparr>chunk_Index = 0, chunk_Content = [NewTextPart ''lo '']\<rparr>,
                   \<lparr>chunk_Index = 0, chunk_Content = [NewTextPart ''world'']\<rparr>],
      run_cb_state = 3\<rparr> \<and>
   map (\<lambda>chunk. map Text (chunk_Content chunk))
     (run_calls (generateTextStream demo_client demo_input demo_request countingCallback 0)) =
     [[''Hel''], [''lo ''], [''world'']]"
proof -
  have a: "ConverseStream demo_client demo_input =
     Inr [ConverseStreamOutputMemberContentBlockDelta
            (Some (ContentBlockDeltaMemberText ''Hel'')),
          ConverseStreamOutputMemberContentBlockDelta
            (Some (ContentBlockDeltaMemberText ''lo '')),
          ConverseStreamOutputMemberContentBlockDelta
            (Some (ContentBlockDeltaMemberText ''world''))]"
    by (simp add: demo_client_def helloEvents_def)
  have b: "countingCallback 0 \<lparr>chunk_Index = 0, chunk_Content = [NewTextPart ''Hel'']\<rparr> = (None, 1)"
    "countingCallback 1 \<lparr>chunk_Index = 0, chunk_Content = [NewTextPart ''lo '']\<rparr> = (None, 2)"
    "countingCallback 2 \<lparr>chunk_Index = 0, chunk_Content = [NewTextPart ''world'']\<rparr> = (None, 3)"
    by (simp_all add: countingCallback_def)
  from stream_hello_world [OF a b, of demo_request] a b show ?thesis
    by (simp add: NewTextPart_def)
qed

text \<open>
  Claim C4. In a streaming run whose callback reports a failure on the second text
  delta (and none on the first), whatever other events the stream holds, the callback
  is called exactly twice, the operation returns the callback's failure as its error
  and no response, and the stream is closed.
\<close>

theorem stream_callback_failure:
  assumes "ConverseStream client input = Inr events"
    and "textDeltas events = t1 # t2 # rest"
    and "cb s0 (textChunk t1) = (None, s1)"
    and "cb s1 (textChunk t2) = (Some e, s2)"
  shows "generateTextStream client input originalInput cb s0 =
           \<lparr>run_result = Inl (CallbackError e), run_closed = True,
            run_calls = [textChunk t1, textChunk t2], run_cb_state = s2\<rparr>"
proof -
  let ?st0 = "\<lparr>fullText = [], finalResponse = None, cb_state = s0, cb_log = []\<rparr>
              :: ('a, 'b) stream_state"
  from processEvents_fail_second[OF assms(2), of cb ?st0 s1 e s2] assms(3,4)
  obtain st' where "processEvents cb events ?st0 = (Some (CallbackError e), st')"
    "cb_log st' = [textChunk t1, textChunk t2]" "cb_state st' = s2" by auto
  with assms(1) show ?thesis by (simp add: generateTextStream_def)
qed

theorem stream_callback_failure_witness:
  "ConverseStream demo_client demo_input = Inr helloEvents \<and>
   textDeltas helloEvents = [''Hel'', ''lo '', ''world''] \<and>
   failSecondCallback 0 (textChunk ''Hel'') = (None, 1) \<and>
   failSecondCallback 1 (textChunk ''lo '') = (Some ''stop'', 2) \<and>
   generateTextStream demo_client demo_input demo_request failSecondCallback 0 =
     \<lparr>run_result = Inl (CallbackError ''stop''), run_closed = True,
      run_calls = [textChunk ''Hel'', textChunk ''lo ''], run_cb_state = 2\<rparr>"
proof -
  have a: "ConverseStream demo_client demo_input = Inr helloEvents"
    by (simp add: demo_client_def)
  have d: "textDeltas helloEvents = ''Hel'' # ''lo '' # [''world'']"
    by (simp add: helloEvents_def)
  have b: "failSecondCallback 0 (textChunk ''Hel'') = (None, 1)"
    by (simp add: failSecondCallback_def)
  have c: "failSecondCallback 1 (textChunk ''lo '') = (Some ''stop'', 2)"
    by (simp add: failSecondCallback_def)
  from stream_callback_failure [OF a d b c, of demo_request] a d b c show ?thesis by simp
qed

section \<open>Properties of the image and embedding adapters\<close>

text \<open>
  The three image adapters return a response only for a list of images that is not
  empty, and the Cohere adapter fails on an empty list of embeddings.
\<close>

lemma generateTitanImage_nonempty:
  assumes "generateTitanImage L client modelName prompt config = Inr r"
  shows "\<exists>body images. Unmarshal_images L body = Inr images \<and> images \<noteq> [] \<and>
           r = imageResponse (images ! 0)"
  using assms by (auto simp: generateTitanImage_def Let_def split: sum.splits if_splits)

lemma generateNovaCanvasImage_nonempty:
  assumes "generateNovaCanvasImage L client modelName prompt config = Inr r"
  shows "\<exists>body images. Unmarshal_images L body = Inr images \<and> images \<noteq> [] \<and>
           r = imageResponse (images ! 0)"
  using assms by (auto simp: generateNovaCanvasImage_def Let_def split: sum.splits if_splits)

lemma generateStableDiffusionImage_nonempty:
  assumes "generateStableDiffusionImage L client modelName prompt config = Inr r"
  shows "\<exists>body artifacts. Unmarshal_artifacts L body = Inr artifacts \<and> artifacts \<noteq> [] \<and>
           r = imageResponse (fst (artifacts ! 0))"
  using assms
  by (auto simp: generateStableDiffusionImage_def Let_def split: sum.splits if_splits)

lemma getCohereEmbedding_empty:
  assumes "invokeJSON L client modelName
             [(''texts'', VStrings [text]), (''input_type'', VString ''search_document'')] =
           Inr body"
    and "Unmarshal_embeddings L body = Inr []"
  shows "getCohereEmbedding L client modelName text = Inl NoEmbeddingsReturned"
  using assms by (simp add: getCohereEmbedding_def)

lemma demo_invoke: "invokeJSON demo_lib demo_client modelName requestBody = Inr ''{}''"
  by (simp add: invokeJSON_def demo_lib_def demo_client_def)

text \<open>
  Claim C2 asks every adapter to fail on a wire response with no image or no embedding.
  The image adapters and the Cohere adapter do (the lemmas above). The Titan embedding
  adapter does not: when the call succeeds and the response decodes to an empty
  embedding, it returns the empty vector and no error, and \<open>embed\<close> passes it on as an
  embedding.
\<close>

theorem titan_embedding_empty_accepted:
  assumes "invokeJSON L client modelName [(''inputText'', VString text)] = Inr body"
    and "Unmarshal_embedding L body = Inr []"
  shows "getTitanEmbedding L client modelName text = Inr []"
  using assms by (simp add: getTitanEmbedding_def)

theorem titan_embedding_empty_accepted_witness:
  "invokeJSON demo_lib demo_client ''amazon.titan-embed-text-v1''
     [(''inputText'', VString ''hello'')] = Inr ''{}'' \<and>
   Unmarshal_embedding demo_lib ''{}'' = Inr [] \<and>
   getTitanEmbedding demo_lib demo_client ''amazon.titan-embed-text-v1'' ''hello'' = Inr [] \<and>
   embed demo_lib demo_client ''amazon.titan-embed-text-v1'' [[NewTextPart ''hello'']] =
     Inr [[]] \<and>
   embed demo_lib demo_client ''cohere.embed-english-v3'' [[NewTextPart ''hello'']] =
     Inl (FailedToGenerateEmbedding NoEmbeddingsReturned)"
proof -
  have u: "Unmarshal_embedding demo_lib ''{}'' = Inr []"
    by (simp add: demo_lib_def)
  have g: "getTitanEmbedding demo_lib demo_client ''amazon.titan-embed-text-v1'' ''hello'' = Inr []"
    using titan_embedding_empty_accepted [OF demo_invoke u] .
  have c: "getCohereEmbedding demo_lib demo_client ''cohere.embed-english-v3'' ''hello'' =
           Inl NoEmbeddingsReturned"
    by (rule getCohereEmbedding_empty [OF demo_invoke]) (simp add: demo_lib_def)
  have e1: "embed demo_lib demo_client ''amazon.titan-embed-text-v1'' [[NewTextPart ''hello'']] =
     Inr [[]]"
    by (simp add: embed_def g NewTextPart_def IsText_def)
  have e2: "embed demo_lib demo_client ''cohere.embed-english-v3'' [[NewTextPart ''hello'']] =
     Inl (FailedToGenerateEmbedding NoEmbeddingsReturned)"
    by (simp add: embed_def c NewTextPart_def IsText_def)
  from demo_invoke u g e1 e2 show ?thesis by simp
qed

end
